theory Spec2Isabelle
  imports Complex_Main "HOL-Library.Mapping" "HOL-Library.AList_Mapping"
begin

section \<open>Key names\<close>

text \<open>
  The keys of the container are Python f-strings such as \<^verbatim>\<open>f"evt{event}_data"\<close>. The
  integer is rendered in decimal, without leading zeros, with a minus sign when negative.
\<close>

definition digit_char :: "nat \<Rightarrow> char" where
  "digit_char d = ''0123456789'' ! d"

fun str_nat :: "nat \<Rightarrow> string" where
  "str_nat n = (if n < 10 then [digit_char n] else str_nat (n div 10) @ [digit_char (n mod 10)])"

declare str_nat.simps [simp del]

definition str_int :: "int \<Rightarrow> string" where
  "str_int i = (if i < 0 then CHR ''-'' # str_nat (nat (- i)) else str_nat (nat i))"

text \<open>\<^verbatim>\<open>f"evt{n}_{kind}"\<close>, for the kinds \<^verbatim>\<open>data\<close>, \<^verbatim>\<open>header\<close> and \<^verbatim>\<open>1903\<close>.\<close>

definition evt_key :: "int \<Rightarrow> string \<Rightarrow> string" where
  "evt_key n kind = ''evt'' @ str_int n @ ''_'' @ kind"

section \<open>The container\<close>

text \<open>
  A dataset is an array of numbers; the payload of the event records is never looked at.
  A group maps key names to datasets. The file holds the dataset \<^verbatim>\<open>file["meta"]["meta"]\<close>,
  the group \<^verbatim>\<open>file["get"]\<close> and the group \<^verbatim>\<open>file["frib"]["evt"]\<close>; each may be missing.
\<close>

type_synonym dataset = "real list"

type_synonym group = "(string, dataset) mapping"

datatype frib_node = NoFrib | FribNoEvt | FribEvt group

record h5file =
  meta_data :: "dataset option"
  get_group :: "group option"
  frib_evt :: frib_node

datatype error = KeyError string | IndexError | ExistsError string | OverflowError

text \<open>The lines the repair prints, in the order of the source.\<close>

datatype msg =
    Fixing_run
  | Checking_GET
  | GET_offset_detected
  | GET_repaired
  | Checking_FRIB
  | No_FRIBDAQ_data
  | Evt_start_ok
  | Evt_end_ok_skipping
  | FRIB_offset_detected
  | Run_fixed

text \<open>\<^verbatim>\<open>int(x)\<close> on a number truncates towards zero.\<close>

definition py_int :: "real \<Rightarrow> int" where
  "py_int x = (if x < 0 then \<lceil>x\<rceil> else \<lfloor>x\<rfloor>)"

section \<open>Library operations on a group\<close>

text \<open>
  Modelled from the spec: \<^verbatim>\<open>Group.move(old, new)\<close> is the rename of the container library,
  which is not part of the source. By the accessor's contract it moves the record from
  the old key to the new one and fails with a key error when the old key is absent. The
  contract leaves a rename onto an existing key to the caller to avoid; HDF5 refuses it,
  so the model raises there too. A move that raises leaves the group as it was. The
  result pairs the exception raised (if any) with the group afterwards, since the file
  is changed in place.
\<close>

definition move :: "string \<Rightarrow> string \<Rightarrow> group \<Rightarrow> error option \<times> group" where
  "move old_key new_key g =
     (case Mapping.lookup g old_key of
        None \<Rightarrow> (Some (KeyError old_key), g)
      | Some v \<Rightarrow>
          if Mapping.lookup g new_key \<noteq> None then (Some (ExistsError new_key), g)
          else (None, Mapping.update new_key v (Mapping.delete old_key g)))"

text \<open>
  Modelled from the spec: \<^verbatim>\<open>group[key]\<close>, the read of the container library, gives the
  record of a key that is present and raises a key error for one that is absent.
\<close>

definition getitem :: "group \<Rightarrow> string \<Rightarrow> error + dataset" where
  "getitem g k = (case Mapping.lookup g k of None \<Rightarrow> Inl (KeyError k) | Some d \<Rightarrow> Inr d)"

text \<open>
  Modelled from the spec: \<^verbatim>\<open>group[key][i]\<close>, a field of a record. The key is looked up
  first, then the index, which raises when the record is too short.
\<close>

definition field :: "group \<Rightarrow> string \<Rightarrow> nat \<Rightarrow> error + real" where
  "field g k i =
     (case Mapping.lookup g k of
        None \<Rightarrow> Inl (KeyError k)
      | Some d \<Rightarrow> if i < length d then Inr (d ! i) else Inl IndexError)"

section \<open>The repair: \<^verbatim>\<open>fix_event_numbers\<close>\<close>

text \<open>A \<^verbatim>\<open>for\<close> loop whose body changes the group and may raise: the first exception ends it.\<close>

fun for_each :: "('a \<Rightarrow> 's \<Rightarrow> error option \<times> 's) \<Rightarrow> 'a list \<Rightarrow> 's \<Rightarrow> error option \<times> 's" where
  "for_each body [] s = (None, s)"
| "for_each body (x # xs) s =
     (case body x s of
        (Some e, s') \<Rightarrow> (Some e, s')
      | (None, s') \<Rightarrow> for_each body xs s')"

text \<open>The body of the loop over \<^verbatim>\<open>enumerate(trange(event_min, event_max + 1))\<close>.\<close>

definition get_body :: "nat \<times> int \<Rightarrow> group \<Rightarrow> error option \<times> group" where
  "get_body = (\<lambda>(idx, event) data.
     (case move (evt_key event ''data'') (evt_key (int idx) ''data'') data of
        (Some e, data') \<Rightarrow> (Some e, data')
      | (None, data') \<Rightarrow> move (evt_key event ''header'') (evt_key (int idx) ''header'') data'))"

text \<open>The body of the loop over \<^verbatim>\<open>trange(0, event_range + 1)\<close>.\<close>

definition frib_body :: "int \<Rightarrow> group \<Rightarrow> error option \<times> group" where
  "frib_body event data =
     (case move (evt_key (event + 1) ''1903'') (evt_key event ''1903'') data of
        (Some e, data') \<Rightarrow> (Some e, data')
      | (None, data') \<Rightarrow> move (evt_key (event + 1) ''header'') (evt_key event ''header'') data')"

text \<open>
  The tracking stream (from \<^verbatim>\<open>Checking GET data\<close> to \<^verbatim>\<open>GET data repaired\<close>). \<^verbatim>\<open>md\<close> is the
  metadata array read before. The result is the exception raised (if any), the lines
  printed and the file as it is then.
\<close>

definition fix_get :: "dataset \<Rightarrow> int \<Rightarrow> int \<Rightarrow> h5file \<Rightarrow> error option \<times> msg list \<times> h5file" where
  "fix_get md event_min event_max file =
     (if event_min \<noteq> 0 then
        (case get_group file of
           None \<Rightarrow> (Some (KeyError ''get''), [Checking_GET, GET_offset_detected], file)
         | Some data \<Rightarrow>
             (case for_each get_body (enumerate 0 [event_min..event_max]) data of
                (Some e, data') \<Rightarrow>
                  (Some e, [Checking_GET, GET_offset_detected], file\<lparr>get_group := Some data'\<rparr>)
              | (None, data') \<Rightarrow>
                  (None, [Checking_GET, GET_offset_detected, GET_repaired],
                   file\<lparr>get_group := Some data',
                        meta_data := Some (md[0 := 0, 2 := real_of_int (event_max - event_min)])\<rparr>)))
      else (None, [Checking_GET], file))"

text \<open>
  The probe of the beam-diagnostics group (the second \<^verbatim>\<open>try\<close> of the source). Its
  \<^verbatim>\<open>except:\<close> is bare, so the reading of a key is a parameter \<^verbatim>\<open>rd\<close> here: whatever it
  raises is caught. The result says whether the function returns (the file is in order)
  and what was printed.
\<close>

definition probe :: "(group \<Rightarrow> string \<Rightarrow> error + dataset) \<Rightarrow> group \<Rightarrow> int \<Rightarrow> bool \<times> msg list" where
  "probe rd data event_range =
     (case rd data ''evt0_1903'' of
        Inl _ \<Rightarrow> (False, [])
      | Inr _ \<Rightarrow>
          (case rd data (evt_key event_range ''1903'') of
             Inl _ \<Rightarrow> (False, [Evt_start_ok])
           | Inr _ \<Rightarrow> (True, [Evt_start_ok, Evt_end_ok_skipping])))"

text \<open>The beam-diagnostics stream (from \<^verbatim>\<open>Checking FRIB data\<close> to the end).\<close>

definition fix_frib ::
  "(group \<Rightarrow> string \<Rightarrow> error + dataset) \<Rightarrow> int \<Rightarrow> h5file \<Rightarrow> error option \<times> msg list \<times> h5file" where
  "fix_frib rd event_range file =
     (case frib_evt file of
        NoFrib \<Rightarrow> (None, [Checking_FRIB, No_FRIBDAQ_data], file)
      | FribNoEvt \<Rightarrow> (None, [Checking_FRIB, No_FRIBDAQ_data], file)
      | FribEvt data \<Rightarrow>
          if Mapping.is_empty data then (None, [Checking_FRIB, No_FRIBDAQ_data], file)
          else
            (case probe rd data event_range of
               (True, seen) \<Rightarrow> (None, Checking_FRIB # seen, file)
             | (False, seen) \<Rightarrow>
                 (case for_each frib_body [0..event_range] data of
                    (Some e, data') \<Rightarrow>
                      (Some e, Checking_FRIB # seen @ [FRIB_offset_detected],
                       file\<lparr>frib_evt := FribEvt data'\<rparr>)
                  | (None, data') \<Rightarrow>
                      (None, Checking_FRIB # seen @ [FRIB_offset_detected, Run_fixed],
                       file\<lparr>frib_evt := FribEvt data'\<rparr>))))"

text \<open>
  The whole function. \<^verbatim>\<open>event_range\<close> is computed once, from the metadata as read at the
  start.
\<close>

definition fix_event_numbers_with ::
  "(group \<Rightarrow> string \<Rightarrow> error + dataset) \<Rightarrow> h5file \<Rightarrow> error option \<times> msg list \<times> h5file" where
  "fix_event_numbers_with rd file =
     (case meta_data file of
        None \<Rightarrow> (Some (KeyError ''meta''), [Fixing_run], file)
      | Some md \<Rightarrow>
          if length md < 3 then (Some IndexError, [Fixing_run], file)
          else
            (let event_min = py_int (md ! 0);
                 event_max = py_int (md ! 2);
                 event_range = event_max - event_min
             in case fix_get md event_min event_max file of
                  (Some e, printed, file1) \<Rightarrow> (Some e, Fixing_run # printed, file1)
                | (None, printed, file1) \<Rightarrow>
                    (case fix_frib rd event_range file1 of
                       (err, printed2, file2) \<Rightarrow> (err, Fixing_run # printed @ printed2, file2))))"

definition fix_event_numbers :: "h5file \<Rightarrow> error option \<times> msg list \<times> h5file" where
  "fix_event_numbers = fix_event_numbers_with getitem"

section \<open>Floating-point numbers\<close>

text \<open>
  The check mixes Python integers and floats. What it asks of the floats is the four
  operations below; the check is written over any such arithmetic.
  \<^item> \<open>float_of\<close>: \<^verbatim>\<open>float(x)\<close> of a number read from a record;
  \<^item> \<open>float_of_int\<close>: the conversion of an integer that meets a float in a
    subtraction, which raises when the integer is too large;
  \<^item> \<open>float_sub\<close>: the difference of two floats;
  \<^item> \<open>exceeds_one\<close>: the comparison \<^verbatim>\<open>x > 1\<close>.
\<close>

record 'f float_ops =
  float_of :: "real \<Rightarrow> 'f"
  float_of_int :: "int \<Rightarrow> error + 'f"
  float_sub :: "'f \<Rightarrow> 'f \<Rightarrow> 'f"
  exceeds_one :: "'f \<Rightarrow> bool"

text \<open>
  Python's floats are IEEE 754 doubles: a finite double is a multiple of the unit of its
  binade with at most 53 significant bits, every result is rounded to the nearest
  double, a tie going to the even one, and what lies beyond the largest double becomes
  an infinity.
\<close>

datatype pyfloat = Finite real | PosInf | NegInf | NaN

text \<open>The number of binary digits of a positive integer.\<close>

function bit_length :: "int \<Rightarrow> nat" where
  "bit_length n = (if n \<le> 0 then 0 else Suc (bit_length (n div 2)))"
  by pat_completeness auto
termination
  by (relation "measure nat") auto

declare bit_length.simps [simp del]

definition pow2 :: "int \<Rightarrow> real" where
  "pow2 k = (if 0 \<le> k then 2 ^ nat k else 1 / 2 ^ nat (- k))"

text \<open>For \<open>x\<close> other than 0, the exponent \<open>e\<close> with \<open>2\<^sup>e \<le> \<bar>x\<bar> < 2\<^sup>e\<^sup>+\<^sup>1\<close>.\<close>

definition binade :: "real \<Rightarrow> int" where
  "binade x =
     (if 1 \<le> \<bar>x\<bar> then int (bit_length \<lfloor>\<bar>x\<bar>\<rfloor>) - 1
      else - int (bit_length (\<lceil>1 / \<bar>x\<bar>\<rceil> - 1)))"

definition round_half_even :: "real \<Rightarrow> int" where
  "round_half_even x =
     (let n = \<lfloor>x\<rfloor>; d = x - of_int n
      in if d < 1 / 2 then n else if 1 / 2 < d then n + 1 else if even n then n else n + 1)"

text \<open>
  The double nearest to a real. The unit is \<open>2\<^sup>e\<^sup>-\<^sup>5\<^sup>2\<close> for the binade \<open>e\<close> of the number,
  and that of the smallest normal binade, \<open>-1022\<close>, below it. The largest double is
  \<open>(2\<^sup>5\<^sup>3 - 1) \<sqdot> 2\<^sup>9\<^sup>7\<^sup>1\<close>: a number that rounds to \<open>2\<^sup>5\<^sup>3\<close> units in the binade 1023, or lies
  in a higher binade, becomes an infinity.
\<close>

definition round_double :: "real \<Rightarrow> pyfloat" where
  "round_double x =
     (if x = 0 then Finite 0
      else
        (let e = max (binade x) (- 1022);
             n = round_half_even (x / pow2 (e - 52))
         in if 1024 \<le> e \<or> (e = 1023 \<and> 2 ^ 53 \<le> \<bar>n\<bar>)
            then (if 0 < x then PosInf else NegInf)
            else Finite (of_int n * pow2 (e - 52))))"

text \<open>A Python integer becomes a float by rounding; it raises when the result is not finite.\<close>

definition int_to_float :: "int \<Rightarrow> error + pyfloat" where
  "int_to_float n =
     (case round_double (of_int n) of Finite r \<Rightarrow> Inr (Finite r) | _ \<Rightarrow> Inl OverflowError)"

fun fsub :: "pyfloat \<Rightarrow> pyfloat \<Rightarrow> pyfloat" where
  "fsub NaN y = NaN"
| "fsub x NaN = NaN"
| "fsub (Finite a) (Finite b) = round_double (a - b)"
| "fsub (Finite a) PosInf = NegInf"
| "fsub (Finite a) NegInf = PosInf"
| "fsub PosInf PosInf = NaN"
| "fsub PosInf y = PosInf"
| "fsub NegInf NegInf = NaN"
| "fsub NegInf y = NegInf"

fun gt_one :: "pyfloat \<Rightarrow> bool" where
  "gt_one (Finite r) = (1 < r)"
| "gt_one PosInf = True"
| "gt_one NegInf = False"
| "gt_one NaN = False"

definition py_floats :: "pyfloat float_ops" where
  "py_floats = \<lparr>float_of = round_double, float_of_int = int_to_float,
                 float_sub = fsub, exceeds_one = gt_one\<rparr>"

section \<open>The check: \<^verbatim>\<open>check_timestamps\<close>\<close>

text \<open>
  What the check prints: that the timestamps match, or the mismatch with the event, the
  offset found, the timestamp of the tracking stream as read, that of the other stream
  as a float, and the offset expected.
\<close>

datatype 'f report = Match | Mismatch int int real 'f 'f

text \<open>
  The first three lines of the loop body: both headers are looked up, then the two fields
  are read. The result is \<^verbatim>\<open>this_offset\<close> with the two timestamps it comes from.
\<close>

definition this_offset :: "group \<Rightarrow> group \<Rightarrow> int \<Rightarrow> error + (int \<times> real \<times> real)" where
  "this_offset get_grp frib_grp event =
     (case Mapping.lookup get_grp (evt_key event ''header'') of
        None \<Rightarrow> Inl (KeyError (evt_key event ''header''))
      | Some get_header \<Rightarrow>
          (case Mapping.lookup frib_grp (evt_key event ''header'') of
             None \<Rightarrow> Inl (KeyError (evt_key event ''header''))
           | Some frib_header \<Rightarrow>
               if length get_header \<le> 2 then Inl IndexError
               else if length frib_header \<le> 1 then Inl IndexError
               else Inr (py_int (get_header ! 2) - py_int (frib_header ! 1),
                         get_header ! 2, frib_header ! 1)))"

text \<open>
  The test \<^verbatim>\<open>this_offset - offset > 1\<close>: the integer is converted to a float, the floats
  are subtracted, and the difference is compared with 1.
\<close>

definition drifted :: "'f float_ops \<Rightarrow> int \<Rightarrow> 'f \<Rightarrow> error + bool" where
  "drifted ar found offset =
     (case float_of_int ar found of
        Inl e \<Rightarrow> Inl e
      | Inr x \<Rightarrow> Inr (exceeds_one ar (float_sub ar x offset)))"

text \<open>The loop over \<^verbatim>\<open>trange(event_min, event_max)\<close>.\<close>

fun scan :: "'f float_ops \<Rightarrow> group \<Rightarrow> group \<Rightarrow> 'f \<Rightarrow> int list \<Rightarrow> error + 'f report" where
  "scan ar get_grp frib_grp offset [] = Inr Match"
| "scan ar get_grp frib_grp offset (event # rest) =
     (case this_offset get_grp frib_grp event of
        Inl e \<Rightarrow> Inl e
      | Inr (found, t_get, t_frib) \<Rightarrow>
          (case drifted ar found offset of
             Inl e \<Rightarrow> Inl e
           | Inr True \<Rightarrow> Inr (Mismatch event found t_get (float_of ar t_frib) offset)
           | Inr False \<Rightarrow> scan ar get_grp frib_grp offset rest))"

text \<open>
  The whole function, over a float arithmetic. The reference offset is
  \<^verbatim>\<open>float(...) - float(...)\<close>, a difference of floats.
\<close>

definition check_timestamps_with :: "'f float_ops \<Rightarrow> h5file \<Rightarrow> error + 'f report" where
  "check_timestamps_with ar file =
     (case meta_data file of
        None \<Rightarrow> Inl (KeyError ''meta'')
      | Some md \<Rightarrow>
          if length md < 3 then Inl IndexError
          else
            (let event_min = py_int (md ! 0); event_max = py_int (md ! 2)
             in case get_group file of
                  None \<Rightarrow> Inl (KeyError ''get'')
                | Some get_grp \<Rightarrow>
                    (case frib_evt file of
                       NoFrib \<Rightarrow> Inl (KeyError ''frib'')
                     | FribNoEvt \<Rightarrow> Inl (KeyError ''evt'')
                     | FribEvt frib_grp \<Rightarrow>
                         (case field get_grp (evt_key event_min ''header'') 2 of
                            Inl e \<Rightarrow> Inl e
                          | Inr t_get \<Rightarrow>
                              (case field frib_grp (evt_key event_min ''header'') 1 of
                                 Inl e \<Rightarrow> Inl e
                               | Inr t_frib \<Rightarrow>
                                   scan ar get_grp frib_grp
                                     (float_sub ar (float_of ar t_get) (float_of ar t_frib))
                                     [event_min..event_max - 1])))))"

definition check_timestamps :: "h5file \<Rightarrow> error + pyfloat report" where
  "check_timestamps = check_timestamps_with py_floats"

section \<open>Vocabulary of the proofs\<close>

text \<open>
  Both rename loops move the record of index \<open>s + i\<close> to index \<open>i\<close>, for \<open>i\<close> from 0
  upwards and for two kinds of key: \<open>pair_shift\<close> is their common body. \<open>shifted\<close> says
  what \<open>n\<close> rounds have made of the keys of one kind: the first \<open>n\<close> indices hold the
  records that were \<open>s\<close> higher, the indices left behind are free, and every other index
  is as it was.
\<close>

definition shifted :: "string \<Rightarrow> int \<Rightarrow> nat \<Rightarrow> group \<Rightarrow> group \<Rightarrow> bool" where
  "shifted kind s n g g' \<longleftrightarrow>
     (\<forall>i<n. Mapping.lookup g' (evt_key (int i) kind) = Mapping.lookup g (evt_key (s + int i) kind)) \<and>
     (\<forall>i<n. int n \<le> s + int i \<longrightarrow> Mapping.lookup g' (evt_key (s + int i) kind) = None) \<and>
     (\<forall>j. (\<forall>i<n. j \<noteq> int i \<and> j \<noteq> s + int i) \<longrightarrow>
          Mapping.lookup g' (evt_key j kind) = Mapping.lookup g (evt_key j kind))"

definition pair_shift :: "string \<Rightarrow> string \<Rightarrow> int \<Rightarrow> nat \<Rightarrow> group \<Rightarrow> error option \<times> group" where
  "pair_shift ka kb s i g =
     (case move (evt_key (s + int i) ka) (evt_key (int i) ka) g of
        (Some e, g') \<Rightarrow> (Some e, g')
      | (None, g') \<Rightarrow> move (evt_key (s + int i) kb) (evt_key (int i) kb) g')"


section \<open>Example containers\<close>

text \<open>
  Records for the events of a list: in the tracking stream a payload and a header whose
  third field is the timestamp, in the beam-diagnostics stream a payload and a header
  whose second field is the timestamp.
\<close>

definition get_records :: "int list \<Rightarrow> (string \<times> dataset) list" where
  "get_records es = concat (map (\<lambda>e. [(evt_key e ''data'', [real_of_int e]),
      (evt_key e ''header'', [real_of_int e, 0, 100 + real_of_int e])]) es)"

definition frib_records :: "int list \<Rightarrow> (string \<times> dataset) list" where
  "frib_records es = concat (map (\<lambda>e. [(evt_key e ''1903'', [real_of_int e]),
      (evt_key e ''header'', [real_of_int e, real_of_int e])]) es)"

definition file_5_10 :: h5file where
  "file_5_10 = \<lparr>meta_data = Some [5, 0, 10],
     get_group = Some (Mapping.of_alist (get_records [5..10])),
     frib_evt = FribEvt Mapping.empty\<rparr>"

definition file_0_3 :: h5file where
  "file_0_3 = \<lparr>meta_data = Some [0, 0, 3],
     get_group = Some (Mapping.of_alist (get_records [0..3])),
     frib_evt = FribEvt (Mapping.of_alist (frib_records [1..4]))\<rparr>"

definition file_in_order :: h5file where
  "file_in_order = \<lparr>meta_data = Some [5, 0, 10],
     get_group = Some (Mapping.of_alist (get_records [5..10])),
     frib_evt = FribEvt (Mapping.of_alist (frib_records [0..5]))\<rparr>"




text \<open>A reading of keys that raises something other than a key error.\<close>

definition failing_read :: "group \<Rightarrow> string \<Rightarrow> error + dataset" where
  "failing_read g k = Inl IndexError"

text \<open>
  Containers for the check: one whose two clocks keep the offset 100; one where the offset
  is 100, 101, 103 at the indices 0, 1, 2, the header of index 3 is missing and index 4
  is off as well; one whose timestamps lie above \<open>2\<^sup>5\<^sup>3\<close>, where doubles are two apart; one
  where the offset falls from 100 to 50.
\<close>

definition file_sync :: h5file where
  "file_sync = \<lparr>meta_data = Some [0, 0, 3],
     get_group = Some (Mapping.of_alist (get_records [0..3])),
     frib_evt = FribEvt (Mapping.of_alist (frib_records [0..3]))\<rparr>"

definition mismatch_get :: group where
  "mismatch_get = Mapping.of_alist
     [(evt_key 0 ''header'', [0, 0, 100]), (evt_key 1 ''header'', [1, 0, 101]),
      (evt_key 2 ''header'', [2, 0, 103]), (evt_key 4 ''header'', [4, 0, 500])]"

definition mismatch_frib :: group where
  "mismatch_frib = Mapping.of_alist (map (\<lambda>e. (evt_key e ''header'', [real_of_int e, 0])) [0..4])"

definition file_mismatch :: h5file where
  "file_mismatch = \<lparr>meta_data = Some [0, 0, 5],
     get_group = Some mismatch_get, frib_evt = FribEvt mismatch_frib\<rparr>"

definition large_get :: group where
  "large_get = Mapping.of_alist
     [(evt_key 0 ''header'', [0, 0, 9007199254740994]),
      (evt_key 1 ''header'', [1, 0, 9007199254740994])]"

definition large_frib :: group where
  "large_frib = Mapping.of_alist
     [(evt_key 0 ''header'', [0, 1]), (evt_key 1 ''header'', [1, 0])]"

definition file_large :: h5file where
  "file_large = \<lparr>meta_data = Some [0, 0, 2],
     get_group = Some large_get, frib_evt = FribEvt large_frib\<rparr>"

definition drift_get :: group where
  "drift_get = Mapping.of_alist
     [(evt_key 0 ''header'', [0, 0, 100]), (evt_key 1 ''header'', [1, 0, 50])]"

definition drift_frib :: group where
  "drift_frib = Mapping.of_alist
     [(evt_key 0 ''header'', [0, 0]), (evt_key 1 ''header'', [1, 0])]"

definition file_drift :: h5file where
  "file_drift = \<lparr>meta_data = Some [0, 0, 2],
     get_group = Some drift_get, frib_evt = FribEvt drift_frib\<rparr>"

section \<open>Key names are unambiguous\<close>

lemma digit_char_inj:
  assumes "a < 10" "b < 10" "digit_char a = digit_char b"
  shows "a = b"
proof -
  have d: "distinct ''0123456789''" by simp
  have "a < length ''0123456789''" "b < length ''0123456789''" using assms by simp_all
  with d assms(3) show ?thesis
    unfolding digit_char_def by (simp only: nth_eq_iff_index_eq)
qed

lemma digit_char_not_minus: "d < 10 \<Longrightarrow> digit_char d \<noteq> CHR ''-''"
proof -
  assume "d < 10"
  then have "digit_char d \<in> set ''0123456789''"
    unfolding digit_char_def by (intro nth_mem) simp
  then show ?thesis by auto
qed

lemma str_nat_not_Nil: "str_nat n \<noteq> []"
  by (subst str_nat.simps) simp

lemma str_nat_length_one: "length (str_nat n) = 1 \<longleftrightarrow> n < 10"
  by (subst str_nat.simps) (simp add: str_nat_not_Nil)

lemma hd_str_nat_not_minus: "hd (str_nat n) \<noteq> CHR ''-''"
proof (induction n rule: str_nat.induct)
  case (1 n)
  show ?case
  proof (cases "n < 10")
    case True
    then show ?thesis by (subst str_nat.simps) (simp add: digit_char_not_minus)
  next
    case False
    with 1 show ?thesis by (subst str_nat.simps) (simp add: str_nat_not_Nil)
  qed
qed

lemma str_nat_inj: "str_nat m = str_nat n \<Longrightarrow> m = n"
proof (induction m arbitrary: n rule: str_nat.induct)
  case (1 m)
  show ?case
  proof (cases "m < 10")
    case True
    with "1.prems" have "length (str_nat n) = 1"
      by (metis str_nat_length_one)
    then have n: "n < 10" by (metis str_nat_length_one)
    from "1.prems" True n have "digit_char m = digit_char n"
      by (simp add: str_nat.simps)
    with True n show ?thesis by (rule digit_char_inj)
  next
    case False
    then have "length (str_nat n) \<noteq> 1"
      using "1.prems" str_nat_length_one by metis
    then have n: "\<not> n < 10" by (metis str_nat_length_one)
    have "str_nat (m div 10) @ [digit_char (m mod 10)] = str_nat (n div 10) @ [digit_char (n mod 10)]"
      using "1.prems" False n str_nat.simps [of m] str_nat.simps [of n] by simp
    then have a: "str_nat (m div 10) = str_nat (n div 10)"
      and b: "digit_char (m mod 10) = digit_char (n mod 10)" by simp_all
    from "1.IH" [OF False a] have "m div 10 = n div 10" .
    moreover have "m mod 10 = n mod 10"
      by (rule digit_char_inj [OF _ _ b]) simp_all
    ultimately show ?thesis by (metis div_mult_mod_eq)
  qed
qed

lemma str_int_inj: "str_int i = str_int j \<Longrightarrow> i = j"
proof -
  assume eq: "str_int i = str_int j"
  have neg: "\<And>a b. CHR ''-'' # str_nat a \<noteq> str_nat b"
    using hd_str_nat_not_minus by (metis list.sel(1))
  show ?thesis
  proof (cases "i < 0")
    case True
    show ?thesis
    proof (cases "j < 0")
      case j: True
      with True eq have "str_nat (nat (- i)) = str_nat (nat (- j))" by (simp add: str_int_def)
      then have "nat (- i) = nat (- j)" by (rule str_nat_inj)
      with True j show ?thesis by simp
    next
      case False
      with True eq neg show ?thesis by (simp add: str_int_def)
    qed
  next
    case False
    show ?thesis
    proof (cases "j < 0")
      case True
      with False eq neg [of "nat (- j)" "nat i"] show ?thesis by (simp add: str_int_def)
    next
      case j: False
      with False eq have "str_nat (nat i) = str_nat (nat j)" by (simp add: str_int_def)
      then have "nat i = nat j" by (rule str_nat_inj)
      with False j show ?thesis by simp
    qed
  qed
qed

lemma evt_key_eq_iff [simp]: "evt_key m kind = evt_key n kind \<longleftrightarrow> m = n"
  by (auto simp: evt_key_def dest: str_int_inj)

lemma evt_key_data_header [simp]:
  "evt_key m ''data'' \<noteq> evt_key n ''header''" "evt_key m ''header'' \<noteq> evt_key n ''data''"
proof -
  have "last (evt_key m ''data'') \<noteq> last (evt_key n ''header'')" for m n
    by (simp add: evt_key_def)
  then show "evt_key m ''data'' \<noteq> evt_key n ''header''" "evt_key m ''header'' \<noteq> evt_key n ''data''"
    by metis+
qed

lemma evt_key_1903_header [simp]:
  "evt_key m ''1903'' \<noteq> evt_key n ''header''" "evt_key m ''header'' \<noteq> evt_key n ''1903''"
proof -
  have "last (evt_key m ''1903'') \<noteq> last (evt_key n ''header'')" for m n
    by (simp add: evt_key_def)
  then show "evt_key m ''1903'' \<noteq> evt_key n ''header''" "evt_key m ''header'' \<noteq> evt_key n ''1903''"
    by metis+
qed

lemma evt0_1903: "''evt0_1903'' = evt_key 0 ''1903''"
  by (simp add: evt_key_def str_int_def str_nat.simps digit_char_def)

section \<open>Moving keys\<close>

lemma move_ok:
  "Mapping.lookup g old = Some v \<Longrightarrow> Mapping.lookup g new = None \<Longrightarrow>
   move old new g = (None, Mapping.update new v (Mapping.delete old g))"
  by (simp add: move_def)

lemma lookup_moved:
  "Mapping.lookup (Mapping.update new v (Mapping.delete old g)) k =
     (if k = new then Some v else if k = old then None else Mapping.lookup g k)"
  by (simp add: lookup_update')


lemma move_raises_iff:
  "fst (move old new g) \<noteq> None \<longleftrightarrow> Mapping.lookup g old = None \<or> Mapping.lookup g new \<noteq> None"
  by (auto simp: move_def split: option.splits)

lemma for_each_append:
  "for_each body (xs @ ys) s =
     (case for_each body xs s of (Some e, s') \<Rightarrow> (Some e, s') | (None, s') \<Rightarrow> for_each body ys s')"
  by (induction xs arbitrary: s) (auto split: prod.splits option.splits)

lemma for_each_map: "for_each body (map f xs) s = for_each (\<lambda>x. body (f x)) xs s"
  by (induction xs arbitrary: s) (auto split: prod.splits option.splits)

lemma shifted_0: "shifted kind s 0 g g"
  by (simp add: shifted_def)

lemma shifted_other:
  "shifted kind s n g h \<Longrightarrow>
   (\<And>j. Mapping.lookup h' (evt_key j kind) = Mapping.lookup h (evt_key j kind)) \<Longrightarrow>
   shifted kind s n g h'"
  by (simp add: shifted_def)

lemma shifted_step:
  assumes inv: "shifted kind s n g h"
    and s: "0 < s"
    and src: "Mapping.lookup g (evt_key (s + int n) kind) = Some v"
    and tgt: "int n < s \<Longrightarrow> Mapping.lookup g (evt_key (int n) kind) = None"
  shows "move (evt_key (s + int n) kind) (evt_key (int n) kind) h =
           (None, Mapping.update (evt_key (int n) kind) v (Mapping.delete (evt_key (s + int n) kind) h))"
    and "shifted kind s (Suc n) g
           (Mapping.update (evt_key (int n) kind) v (Mapping.delete (evt_key (s + int n) kind) h))"
proof -
  from inv have T: "\<And>i. i < n \<Longrightarrow>
      Mapping.lookup h (evt_key (int i) kind) = Mapping.lookup g (evt_key (s + int i) kind)"
    and V: "\<And>i. i < n \<Longrightarrow> int n \<le> s + int i \<Longrightarrow> Mapping.lookup h (evt_key (s + int i) kind) = None"
    and U: "\<And>j. (\<forall>i<n. j \<noteq> int i \<and> j \<noteq> s + int i) \<Longrightarrow>
      Mapping.lookup h (evt_key j kind) = Mapping.lookup g (evt_key j kind)"
    by (simp_all add: shifted_def)
  have "\<forall>i<n. s + int n \<noteq> int i \<and> s + int n \<noteq> s + int i" using s by auto
  then have src_h: "Mapping.lookup h (evt_key (s + int n) kind) = Some v"
    using U src by simp
  have tgt_h: "Mapping.lookup h (evt_key (int n) kind) = None"
  proof (cases "int n < s")
    case True
    then have "\<forall>i<n. int n \<noteq> int i \<and> int n \<noteq> s + int i" by auto
    with U tgt True show ?thesis by simp
  next
    case False
    then have i: "nat (int n - s) < n" "s + int (nat (int n - s)) = int n" using s by auto
    from V [OF i(1)] i(2) show ?thesis by simp
  qed
  let ?h' = "Mapping.update (evt_key (int n) kind) v (Mapping.delete (evt_key (s + int n) kind) h)"
  show "move (evt_key (s + int n) kind) (evt_key (int n) kind) h = (None, ?h')"
    using src_h tgt_h by (rule move_ok)
  have L: "\<And>j. Mapping.lookup ?h' (evt_key j kind) =
      (if j = int n then Some v else if j = s + int n then None else Mapping.lookup h (evt_key j kind))"
    by (simp add: lookup_moved)
  show "shifted kind s (Suc n) g ?h'"
    unfolding shifted_def
  proof (intro conjI allI impI)
    fix i assume "i < Suc n"
    then show "Mapping.lookup ?h' (evt_key (int i) kind) = Mapping.lookup g (evt_key (s + int i) kind)"
      using s src T by (cases "i = n") (auto simp: L)
  next
    fix i assume "i < Suc n" "int (Suc n) \<le> s + int i"
    then show "Mapping.lookup ?h' (evt_key (s + int i) kind) = None"
      using s V by (cases "i = n") (auto simp: L)
  next
    fix j assume a: "\<forall>i<Suc n. j \<noteq> int i \<and> j \<noteq> s + int i"
    then have "j \<noteq> int n" "j \<noteq> s + int n" "\<forall>i<n. j \<noteq> int i \<and> j \<noteq> s + int i" by auto
    then show "Mapping.lookup ?h' (evt_key j kind) = Mapping.lookup g (evt_key j kind)"
      using U by (simp add: L)
  qed
qed

lemma pair_shift_loop:
  assumes s: "0 < s"
    and disj: "\<And>m n. evt_key m ka \<noteq> evt_key n kb"
    and present: "\<And>i. i < n \<Longrightarrow> Mapping.lookup g (evt_key (s + int i) ka) \<noteq> None \<and>
                                  Mapping.lookup g (evt_key (s + int i) kb) \<noteq> None"
    and free: "\<And>i. i < n \<Longrightarrow> int i < s \<Longrightarrow> Mapping.lookup g (evt_key (int i) ka) = None \<and>
                                  Mapping.lookup g (evt_key (int i) kb) = None"
  shows "\<exists>g'. for_each (pair_shift ka kb s) [0..<n] g = (None, g') \<and>
              shifted ka s n g g' \<and> shifted kb s n g g' \<and>
              (\<forall>k. (\<forall>j. k \<noteq> evt_key j ka \<and> k \<noteq> evt_key j kb) \<longrightarrow>
                   Mapping.lookup g' k = Mapping.lookup g k)"
  using present free
proof (induction n)
  case 0
  show ?case by (simp add: shifted_0)
next
  case (Suc n)
  from Suc.IH Suc.prems obtain h where
    run: "for_each (pair_shift ka kb s) [0..<n] g = (None, h)"
    and ia: "shifted ka s n g h" and ib: "shifted kb s n g h"
    and fr: "\<And>k. (\<forall>j. k \<noteq> evt_key j ka \<and> k \<noteq> evt_key j kb) \<Longrightarrow>
               Mapping.lookup h k = Mapping.lookup g k"
    by (metis less_Suc_eq)
  from Suc.prems(1) [of n] obtain va vb where
    va: "Mapping.lookup g (evt_key (s + int n) ka) = Some va"
    and vb: "Mapping.lookup g (evt_key (s + int n) kb) = Some vb" by auto
  have fa: "int n < s \<Longrightarrow> Mapping.lookup g (evt_key (int n) ka) = None"
    and fb: "int n < s \<Longrightarrow> Mapping.lookup g (evt_key (int n) kb) = None"
    using Suc.prems(2) [of n] by simp_all
  let ?h1 = "Mapping.update (evt_key (int n) ka) va (Mapping.delete (evt_key (s + int n) ka) h)"
  let ?h2 = "Mapping.update (evt_key (int n) kb) vb (Mapping.delete (evt_key (s + int n) kb) ?h1)"
  have m1: "move (evt_key (s + int n) ka) (evt_key (int n) ka) h = (None, ?h1)"
    and ia1: "shifted ka s (Suc n) g ?h1"
    using shifted_step [OF ia s va fa] by simp_all
  have ib1: "shifted kb s n g ?h1"
    using ib by (rule shifted_other) (simp add: lookup_moved disj [symmetric])
  have m2: "move (evt_key (s + int n) kb) (evt_key (int n) kb) ?h1 = (None, ?h2)"
    and ib2: "shifted kb s (Suc n) g ?h2"
    using shifted_step [OF ib1 s vb fb] by simp_all
  have ia2: "shifted ka s (Suc n) g ?h2"
    using ia1 by (rule shifted_other) (simp add: lookup_moved disj)
  have body: "pair_shift ka kb s n h = (None, ?h2)"
    by (simp add: pair_shift_def m1 m2)
  have "for_each (pair_shift ka kb s) [0..<Suc n] g = (None, ?h2)"
    by (simp add: for_each_append run body)
  moreover have "\<forall>k. (\<forall>j. k \<noteq> evt_key j ka \<and> k \<noteq> evt_key j kb) \<longrightarrow>
      Mapping.lookup ?h2 k = Mapping.lookup g k"
    using fr by (simp add: lookup_moved)
  ultimately show ?case using ia2 ib2 by blast
qed

section \<open>The two rename loops\<close>

lemma upto_as_map: "[a..b] = map (\<lambda>i. a + int i) [0..<nat (b - a + 1)]"
proof (induction "nat (b - a + 1)" arbitrary: b)
  case 0
  then show ?case by simp
next
  case (Suc n)
  then have le: "a \<le> b" and n: "n = nat (b - 1 - a + 1)" by linarith+
  have b: "b = a + int n" using n le by simp
  have 1: "[a..b] = [a..b - 1] @ [b]" using le by (rule upto_rec2)
  have 2: "[a..b - 1] = map (\<lambda>i. a + int i) [0..<n]"
    using Suc.hyps(1) [OF n] n by simp
  have 3: "nat (b - a + 1) = Suc n" using Suc.hyps(2) by simp
  show ?case unfolding 3 1 2 using b by simp
qed

lemma get_loop_eq:
  "for_each get_body (enumerate 0 [a..b]) g =
   for_each (pair_shift ''data'' ''header'' a) [0..<nat (b - a + 1)] g"
proof -
  have "(\<lambda>k. get_body (k, a + int k)) = pair_shift ''data'' ''header'' a"
    by (rule ext, rule ext) (simp add: get_body_def pair_shift_def)
  then show ?thesis
    by (simp add: upto_as_map [of a b] enumerate_map_upt for_each_map)
qed

lemma frib_loop_eq:
  "for_each frib_body [0..r] g = for_each (pair_shift ''1903'' ''header'' 1) [0..<nat (r + 1)] g"
proof -
  have "(\<lambda>k. frib_body (int k)) = pair_shift ''1903'' ''header'' 1"
    by (rule ext, rule ext) (simp add: frib_body_def pair_shift_def add.commute split: prod.splits option.splits)
  then show ?thesis
    by (simp add: upto_as_map [of 0 r] for_each_map)
qed

lemma shifted_explicit:
  assumes "shifted kind s n g g'"
  shows "\<forall>i\<in>set [0..int n - 1].
           Mapping.lookup g' (evt_key i kind) = Mapping.lookup g (evt_key (s + i) kind)"
    and "\<forall>e\<in>set [s..s + int n - 1]. int n \<le> e \<longrightarrow> Mapping.lookup g' (evt_key e kind) = None"
    and "\<forall>j. j \<notin> set [0..int n - 1] \<union> set [s..s + int n - 1] \<longrightarrow>
           Mapping.lookup g' (evt_key j kind) = Mapping.lookup g (evt_key j kind)"
proof -
  from assms have T: "\<And>i. i < n \<Longrightarrow>
      Mapping.lookup g' (evt_key (int i) kind) = Mapping.lookup g (evt_key (s + int i) kind)"
    and V: "\<And>i. i < n \<Longrightarrow> int n \<le> s + int i \<Longrightarrow> Mapping.lookup g' (evt_key (s + int i) kind) = None"
    and U: "\<And>j. (\<forall>i<n. j \<noteq> int i \<and> j \<noteq> s + int i) \<Longrightarrow>
      Mapping.lookup g' (evt_key j kind) = Mapping.lookup g (evt_key j kind)"
    by (simp_all add: shifted_def)
  show "\<forall>i\<in>set [0..int n - 1].
      Mapping.lookup g' (evt_key i kind) = Mapping.lookup g (evt_key (s + i) kind)"
  proof
    fix i assume "i \<in> set [0..int n - 1]"
    then have "nat i < n" "int (nat i) = i" by auto
    with T [of "nat i"] show "Mapping.lookup g' (evt_key i kind) = Mapping.lookup g (evt_key (s + i) kind)"
      by simp
  qed
  show "\<forall>e\<in>set [s..s + int n - 1]. int n \<le> e \<longrightarrow> Mapping.lookup g' (evt_key e kind) = None"
  proof (intro ballI impI)
    fix e assume "e \<in> set [s..s + int n - 1]" "int n \<le> e"
    then have "nat (e - s) < n" "s + int (nat (e - s)) = e" by auto
    with V [of "nat (e - s)"] \<open>int n \<le> e\<close> show "Mapping.lookup g' (evt_key e kind) = None"
      by simp
  qed
  show "\<forall>j. j \<notin> set [0..int n - 1] \<union> set [s..s + int n - 1] \<longrightarrow>
      Mapping.lookup g' (evt_key j kind) = Mapping.lookup g (evt_key j kind)"
  proof (intro allI impI)
    fix j assume "j \<notin> set [0..int n - 1] \<union> set [s..s + int n - 1]"
    then have "\<forall>i<n. j \<noteq> int i \<and> j \<noteq> s + int i" by auto
    then show "Mapping.lookup g' (evt_key j kind) = Mapping.lookup g (evt_key j kind)" by (rule U)
  qed
qed

text \<open>The offset loop on a group that holds the records it moves and has room for them.\<close>

lemma get_loop_correct:
  assumes pos: "0 < a"
    and present: "\<forall>e\<in>set [a..b]. Mapping.lookup g (evt_key e ''data'') \<noteq> None \<and>
                                   Mapping.lookup g (evt_key e ''header'') \<noteq> None"
    and free: "\<forall>i\<in>set [0..b - a]. i < a \<longrightarrow> Mapping.lookup g (evt_key i ''data'') = None \<and>
                                              Mapping.lookup g (evt_key i ''header'') = None"
  shows "\<exists>g'. for_each get_body (enumerate 0 [a..b]) g = (None, g') \<and>
     (\<forall>i\<in>set [0..b - a].
        Mapping.lookup g' (evt_key i ''data'') = Mapping.lookup g (evt_key (a + i) ''data'') \<and>
        Mapping.lookup g' (evt_key i ''header'') = Mapping.lookup g (evt_key (a + i) ''header'')) \<and>
     (\<forall>e\<in>set [a..b]. b - a < e \<longrightarrow>
        Mapping.lookup g' (evt_key e ''data'') = None \<and>
        Mapping.lookup g' (evt_key e ''header'') = None) \<and>
     (\<forall>k. (\<forall>j\<in>set [0..b - a] \<union> set [a..b]. k \<noteq> evt_key j ''data'' \<and> k \<noteq> evt_key j ''header'') \<longrightarrow>
        Mapping.lookup g' k = Mapping.lookup g k)"
proof -
  define n where "n = nat (b - a + 1)"
  have tg: "set [0..int n - 1] = set [0..b - a]" and sr: "set [a..a + int n - 1] = set [a..b]"
    by (auto simp: n_def)
  have p: "\<And>i. i < n \<Longrightarrow> Mapping.lookup g (evt_key (a + int i) ''data'') \<noteq> None \<and>
                           Mapping.lookup g (evt_key (a + int i) ''header'') \<noteq> None"
    using present by (auto simp: n_def)
  have f: "\<And>i. i < n \<Longrightarrow> int i < a \<Longrightarrow> Mapping.lookup g (evt_key (int i) ''data'') = None \<and>
                                         Mapping.lookup g (evt_key (int i) ''header'') = None"
    using free by (auto simp: n_def)
  from pair_shift_loop [of a "''data''" "''header''" n g, OF pos evt_key_data_header(1) p f]
  obtain g' where run: "for_each (pair_shift ''data'' ''header'' a) [0..<n] g = (None, g')"
    and d: "shifted ''data'' a n g g'" and h: "shifted ''header'' a n g g'"
    and fr: "\<And>k. (\<forall>j. k \<noteq> evt_key j ''data'' \<and> k \<noteq> evt_key j ''header'') \<Longrightarrow>
                  Mapping.lookup g' k = Mapping.lookup g k"
    by blast
  note D = shifted_explicit [OF d, unfolded tg sr]
  note H = shifted_explicit [OF h, unfolded tg sr]
  have "for_each get_body (enumerate 0 [a..b]) g = (None, g')"
    using run by (simp add: get_loop_eq n_def)
  moreover have "\<forall>i\<in>set [0..b - a].
        Mapping.lookup g' (evt_key i ''data'') = Mapping.lookup g (evt_key (a + i) ''data'') \<and>
        Mapping.lookup g' (evt_key i ''header'') = Mapping.lookup g (evt_key (a + i) ''header'')"
    using D(1) H(1) by blast
  moreover have "\<forall>e\<in>set [a..b]. b - a < e \<longrightarrow>
        Mapping.lookup g' (evt_key e ''data'') = None \<and>
        Mapping.lookup g' (evt_key e ''header'') = None"
    using D(2) H(2) by (auto simp: n_def)
  moreover have "\<forall>k. (\<forall>j\<in>set [0..b - a] \<union> set [a..b]. k \<noteq> evt_key j ''data'' \<and> k \<noteq> evt_key j ''header'') \<longrightarrow>
        Mapping.lookup g' k = Mapping.lookup g k"
  proof (intro allI impI)
    fix k assume a: "\<forall>j\<in>set [0..b - a] \<union> set [a..b]. k \<noteq> evt_key j ''data'' \<and> k \<noteq> evt_key j ''header''"
    show "Mapping.lookup g' k = Mapping.lookup g k"
    proof (cases "\<exists>j. k = evt_key j ''data'' \<or> k = evt_key j ''header''")
      case True
      then obtain j where j: "k = evt_key j ''data'' \<or> k = evt_key j ''header''" by blast
      with a have "j \<notin> set [0..b - a] \<union> set [a..b]" by blast
      with D(3) H(3) j show ?thesis by blast
    next
      case False
      then show ?thesis using fr by blast
    qed
  qed
  ultimately show ?thesis by blast
qed

lemma frib_loop_correct:
  assumes present: "\<forall>e\<in>set [1..r + 1]. Mapping.lookup g (evt_key e ''1903'') \<noteq> None \<and>
                                       Mapping.lookup g (evt_key e ''header'') \<noteq> None"
    and free: "0 \<le> r \<Longrightarrow> Mapping.lookup g (evt_key 0 ''1903'') = None \<and>
               Mapping.lookup g (evt_key 0 ''header'') = None"
  shows "\<exists>g'. for_each frib_body [0..r] g = (None, g') \<and>
     (\<forall>e\<in>set [0..r].
        Mapping.lookup g' (evt_key e ''1903'') = Mapping.lookup g (evt_key (e + 1) ''1903'') \<and>
        Mapping.lookup g' (evt_key e ''header'') = Mapping.lookup g (evt_key (e + 1) ''header'')) \<and>
     (0 \<le> r \<longrightarrow> Mapping.lookup g' (evt_key (r + 1) ''1903'') = None \<and>
                Mapping.lookup g' (evt_key (r + 1) ''header'') = None) \<and>
     (\<forall>k. (\<forall>j\<in>set [0..r + 1]. k \<noteq> evt_key j ''1903'' \<and> k \<noteq> evt_key j ''header'') \<longrightarrow>
        Mapping.lookup g' k = Mapping.lookup g k)"
proof -
  define n where "n = nat (r + 1)"
  have tg: "set [0..int n - 1] = set [0..r]" and sr: "set [1..1 + int n - 1] = set [1..r + 1]"
    by (auto simp: n_def)
  have p: "\<And>i. i < n \<Longrightarrow> Mapping.lookup g (evt_key (1 + int i) ''1903'') \<noteq> None \<and>
                           Mapping.lookup g (evt_key (1 + int i) ''header'') \<noteq> None"
    using present by (auto simp: n_def)
  have f: "\<And>i. i < n \<Longrightarrow> int i < 1 \<Longrightarrow> Mapping.lookup g (evt_key (int i) ''1903'') = None \<and>
                                         Mapping.lookup g (evt_key (int i) ''header'') = None"
    using free by (auto simp: n_def)
  from pair_shift_loop [of 1 "''1903''" "''header''" n g, OF _ evt_key_1903_header(1) p f]
  obtain g' where run: "for_each (pair_shift ''1903'' ''header'' 1) [0..<n] g = (None, g')"
    and d: "shifted ''1903'' 1 n g g'" and h: "shifted ''header'' 1 n g g'"
    and fr: "\<And>k. (\<forall>j. k \<noteq> evt_key j ''1903'' \<and> k \<noteq> evt_key j ''header'') \<Longrightarrow>
                  Mapping.lookup g' k = Mapping.lookup g k"
    by auto
  note D = shifted_explicit [OF d, unfolded tg sr]
  note H = shifted_explicit [OF h, unfolded tg sr]
  have "for_each frib_body [0..r] g = (None, g')"
    using run by (simp add: frib_loop_eq n_def)
  moreover have "\<forall>e\<in>set [0..r].
        Mapping.lookup g' (evt_key e ''1903'') = Mapping.lookup g (evt_key (e + 1) ''1903'') \<and>
        Mapping.lookup g' (evt_key e ''header'') = Mapping.lookup g (evt_key (e + 1) ''header'')"
    using D(1) H(1) by (simp add: add.commute)
  moreover have "0 \<le> r \<longrightarrow> Mapping.lookup g' (evt_key (r + 1) ''1903'') = None \<and>
                Mapping.lookup g' (evt_key (r + 1) ''header'') = None"
    using D(2) H(2) by (auto simp: n_def)
  moreover have "\<forall>k. (\<forall>j\<in>set [0..r + 1]. k \<noteq> evt_key j ''1903'' \<and> k \<noteq> evt_key j ''header'') \<longrightarrow>
        Mapping.lookup g' k = Mapping.lookup g k"
  proof (intro allI impI)
    fix k assume a: "\<forall>j\<in>set [0..r + 1]. k \<noteq> evt_key j ''1903'' \<and> k \<noteq> evt_key j ''header''"
    show "Mapping.lookup g' k = Mapping.lookup g k"
    proof (cases "\<exists>j. k = evt_key j ''1903'' \<or> k = evt_key j ''header''")
      case True
      then obtain j where j: "k = evt_key j ''1903'' \<or> k = evt_key j ''header''" by blast
      with a have "j \<notin> set [0..r + 1]" by blast
      then have "j \<notin> set [0..r] \<union> set [1..r + 1]" by auto
      with D(3) H(3) j show ?thesis by blast
    next
      case False
      then show ?thesis using fr by blast
    qed
  qed
  ultimately show ?thesis by blast
qed

section \<open>The two phases of the repair\<close>

lemma fix_get_frib_evt:
  "fix_get md a b file = (err, printed, file1) \<Longrightarrow> frib_evt file1 = frib_evt file"
  by (auto simp: fix_get_def split: if_splits option.splits prod.splits)

lemma fix_frib_get_meta:
  "fix_frib rd r file = (err, printed, file2) \<Longrightarrow>
   get_group file2 = get_group file \<and> meta_data file2 = meta_data file"
  by (auto simp: fix_frib_def split: frib_node.splits if_splits option.splits prod.splits bool.splits)

lemma fix_event_numbers_with_phases:
  assumes "meta_data file = Some md" "3 \<le> length md"
  shows "fix_event_numbers_with rd file =
     (case fix_get md (py_int (md ! 0)) (py_int (md ! 2)) file of
        (Some e, printed, file1) \<Rightarrow> (Some e, Fixing_run # printed, file1)
      | (None, printed, file1) \<Rightarrow>
          (case fix_frib rd (py_int (md ! 2) - py_int (md ! 0)) file1 of
             (err, printed2, file2) \<Rightarrow> (err, Fixing_run # printed @ printed2, file2)))"
  using assms by (simp add: fix_event_numbers_with_def Let_def)

section \<open>The tracking stream is left alone when it starts at 0\<close>

text \<open>
  Claim C6. When the metadata gives \<^verbatim>\<open>event_min == 0\<close>, the repair renames no key of the
  \<^verbatim>\<open>get\<close> group and writes nothing to the metadata: whatever the rest of the run does,
  the file it leaves has the \<^verbatim>\<open>get\<close> group and the metadata array it started with.
\<close>

theorem get_repair_noop:
  assumes meta: "meta_data file = Some md" "3 \<le> length md"
    and zero: "py_int (md ! 0) = 0"
    and run: "fix_event_numbers file = (err, printed, file')"
  shows "get_group file' = get_group file \<and> meta_data file' = meta_data file"
proof -
  have g: "fix_get md 0 (py_int (md ! 2)) file = (None, [Checking_GET], file)"
    by (simp add: fix_get_def)
  obtain err2 printed2 file2 where
    f: "fix_frib getitem (py_int (md ! 2)) file = (err2, printed2, file2)"
    by (metis prod_cases3)
  from run have "file' = file2"
    by (simp add: fix_event_numbers_def fix_event_numbers_with_phases [OF meta] zero g f)
  with fix_frib_get_meta [OF f] show ?thesis by simp
qed

theorem get_repair_noop_witness:
  "py_int ([0, 0, 3] ! 0) = 0 \<and>
   get_group (snd (snd (fix_event_numbers file_0_3))) = get_group file_0_3 \<and>
   meta_data (snd (snd (fix_event_numbers file_0_3))) = Some [0, 0, 3]"
proof -
  have m: "meta_data file_0_3 = Some [0, 0, 3]" by (simp add: file_0_3_def)
  have l: "3 \<le> length [0, 0, 3 :: real]" by simp
  have z: "py_int ([0, 0, 3] ! 0) = 0" by (simp add: py_int_def)
  have r: "fix_event_numbers file_0_3 = (fst (fix_event_numbers file_0_3),
      fst (snd (fix_event_numbers file_0_3)), snd (snd (fix_event_numbers file_0_3)))" by simp
  from get_repair_noop [OF m l z r] z m show ?thesis by simp
qed

section \<open>A container without beam-diagnostics data\<close>

text \<open>
  Claim C7. Once the tracking stream has been dealt with without an exception, a container
  whose \<^verbatim>\<open>frib\<close> group or \<^verbatim>\<open>evt\<close> subgroup is absent, or whose \<^verbatim>\<open>evt\<close> subgroup is empty,
  makes the repair print that there is no FRIBDAQ data and return without an exception;
  the file is exactly the one the tracking-stream repair left.
\<close>

theorem no_frib_data:
  assumes meta: "meta_data file = Some md" "3 \<le> length md"
    and got: "fix_get md (py_int (md ! 0)) (py_int (md ! 2)) file = (None, printed1, file1)"
    and nofrib: "frib_evt file = NoFrib \<or> frib_evt file = FribNoEvt \<or>
                 (\<exists>g. frib_evt file = FribEvt g \<and> Mapping.is_empty g)"
  shows "fix_event_numbers file = (None, Fixing_run # printed1 @ [Checking_FRIB, No_FRIBDAQ_data], file1)"
proof -
  have "frib_evt file1 = frib_evt file" using got by (rule fix_get_frib_evt)
  with nofrib have "fix_frib getitem (py_int (md ! 2) - py_int (md ! 0)) file1 =
      (None, [Checking_FRIB, No_FRIBDAQ_data], file1)"
    by (auto simp: fix_frib_def)
  then show ?thesis
    by (simp add: fix_event_numbers_def fix_event_numbers_with_phases [OF meta] got)
qed

theorem no_frib_data_witness:
  "fst (fix_get [5, 0, 10] 5 10 file_5_10) = None \<and>
   frib_evt file_5_10 = FribEvt Mapping.empty \<and>
   fix_event_numbers file_5_10 =
     (None, [Fixing_run, Checking_GET, GET_offset_detected, GET_repaired, Checking_FRIB, No_FRIBDAQ_data],
      snd (snd (fix_get [5, 0, 10] 5 10 file_5_10))) \<and>
   meta_data (snd (snd (fix_get [5, 0, 10] 5 10 file_5_10))) = Some [0, 0, 5]"
proof -
  have m: "meta_data file_5_10 = Some [5, 0, 10]" by (simp add: file_5_10_def)
  have l: "3 \<le> length [5, 0, 10 :: real]" by simp
  have a: "py_int ([5, 0, 10] ! 0) = 5" "py_int ([5, 0, 10] ! 2) = 10" by (simp_all add: py_int_def)
  have e: "fst (fix_get [5, 0, 10] 5 10 file_5_10) = None" by code_simp
  have p: "fst (snd (fix_get [5, 0, 10] 5 10 file_5_10)) = [Checking_GET, GET_offset_detected, GET_repaired]"
    by code_simp
  have md: "meta_data (snd (snd (fix_get [5, 0, 10] 5 10 file_5_10))) = Some [0, 0, 5]" by code_simp
  have got: "fix_get [5, 0, 10] (py_int ([5, 0, 10] ! 0)) (py_int ([5, 0, 10] ! 2)) file_5_10 =
      (None, [Checking_GET, GET_offset_detected, GET_repaired], snd (snd (fix_get [5, 0, 10] 5 10 file_5_10)))"
    unfolding a using e p by (metis prod.collapse)
  have f: "frib_evt file_5_10 = FribEvt Mapping.empty" by (simp add: file_5_10_def)
  then have n: "frib_evt file_5_10 = NoFrib \<or> frib_evt file_5_10 = FribNoEvt \<or>
      (\<exists>g. frib_evt file_5_10 = FribEvt g \<and> Mapping.is_empty g)" by simp
  from no_frib_data [OF m l got n] e f md show ?thesis by simp
qed

lemma fix_get_printed:
  "fix_get md a b file = (err, printed, file1) \<Longrightarrow>
   set printed \<subseteq> {Checking_GET, GET_offset_detected, GET_repaired}"
  by (auto simp: fix_get_def split: if_splits option.splits prod.splits)

lemma probe_in_order:
  assumes "Mapping.lookup g ''evt0_1903'' \<noteq> None" "Mapping.lookup g (evt_key r ''1903'') \<noteq> None"
  shows "probe getitem g r = (True, [Evt_start_ok, Evt_end_ok_skipping])"
  using assms by (auto simp: probe_def getitem_def split: option.splits)

lemma not_is_empty: "Mapping.lookup g k \<noteq> None \<Longrightarrow> \<not> Mapping.is_empty g"
  by (auto simp: Mapping.is_empty_def keys_dom_lookup)

section \<open>A beam-diagnostics stream already in order\<close>

text \<open>
  Claim C5. When the \<^verbatim>\<open>frib/evt\<close> group holds both \<^verbatim>\<open>evt0_1903\<close> and
  \<^verbatim>\<open>evt{event_range}_1903\<close>, with \<^verbatim>\<open>event_range = event_max - event_min\<close> taken from the
  metadata as it was before the repair, the repair leaves that group as it is: the shift
  is never started, and a run that returns ends on the line saying the stream is skipped.
\<close>

theorem frib_skip:
  assumes meta: "meta_data file = Some md" "3 \<le> length md"
    and frib: "frib_evt file = FribEvt g"
    and first: "Mapping.lookup g ''evt0_1903'' \<noteq> None"
    and final: "Mapping.lookup g (evt_key (py_int (md ! 2) - py_int (md ! 0)) ''1903'') \<noteq> None"
    and run: "fix_event_numbers file = (err, printed, file')"
  shows "frib_evt file' = FribEvt g \<and> FRIB_offset_detected \<notin> set printed \<and>
         (err = None \<longrightarrow> last printed = Evt_end_ok_skipping)"
proof -
  obtain err1 printed1 file1 where
    got: "fix_get md (py_int (md ! 0)) (py_int (md ! 2)) file = (err1, printed1, file1)"
    by (metis prod_cases3)
  have f1: "frib_evt file1 = FribEvt g" using fix_get_frib_evt [OF got] frib by simp
  have p1: "FRIB_offset_detected \<notin> set printed1" using fix_get_printed [OF got] by auto
  show ?thesis
  proof (cases err1)
    case (Some e)
    with run got have "err = Some e" "printed = Fixing_run # printed1" "file' = file1"
      by (simp_all add: fix_event_numbers_def fix_event_numbers_with_phases [OF meta])
    with f1 p1 show ?thesis by simp
  next
    case None
    have "fix_frib getitem (py_int (md ! 2) - py_int (md ! 0)) file1 =
        (None, [Checking_FRIB, Evt_start_ok, Evt_end_ok_skipping], file1)"
      using f1 not_is_empty [OF first] probe_in_order [OF first final]
      by (simp add: fix_frib_def)
    with None run got have "err = None"
      "printed = Fixing_run # printed1 @ [Checking_FRIB, Evt_start_ok, Evt_end_ok_skipping]"
      "file' = file1"
      by (simp_all add: fix_event_numbers_def fix_event_numbers_with_phases [OF meta])
    with f1 p1 show ?thesis by simp
  qed
qed

theorem frib_skip_witness:
  "Mapping.lookup (Mapping.of_alist (frib_records [0..5])) ''evt0_1903'' \<noteq> None \<and>
   Mapping.lookup (Mapping.of_alist (frib_records [0..5])) ''evt5_1903'' \<noteq> None \<and>
   frib_evt (snd (snd (fix_event_numbers file_in_order))) = frib_evt file_in_order \<and>
   fst (fix_event_numbers file_in_order) = None \<and>
   last (fst (snd (fix_event_numbers file_in_order))) = Evt_end_ok_skipping \<and>
   meta_data (snd (snd (fix_event_numbers file_in_order))) = Some [0, 0, 5]"
proof -
  let ?g = "Mapping.of_alist (frib_records [0..5])"
  have m: "meta_data file_in_order = Some [5, 0, 10]" by (simp add: file_in_order_def)
  have l: "3 \<le> length [5, 0, 10 :: real]" by simp
  have f: "frib_evt file_in_order = FribEvt ?g" by (simp add: file_in_order_def)
  have r: "py_int ([5, 0, 10] ! 2) - py_int ([5, 0, 10] ! 0) = 5" by (simp add: py_int_def)
  have k: "evt_key 5 ''1903'' = ''evt5_1903''" by code_simp
  have a: "Mapping.lookup ?g ''evt0_1903'' \<noteq> None" by code_simp
  have b: "Mapping.lookup ?g (evt_key (py_int ([5, 0, 10] ! 2) - py_int ([5, 0, 10] ! 0)) ''1903'') \<noteq> None"
    unfolding r by code_simp
  have e: "fst (fix_event_numbers file_in_order) = None" by code_simp
  have md: "meta_data (snd (snd (fix_event_numbers file_in_order))) = Some [0, 0, 5]" by code_simp
  have run: "fix_event_numbers file_in_order = (fst (fix_event_numbers file_in_order),
      fst (snd (fix_event_numbers file_in_order)), snd (snd (fix_event_numbers file_in_order)))" by simp
  from frib_skip [OF m l f a b run] e md a b show ?thesis
    unfolding r k f by simp
qed


section \<open>The offset repair of the tracking stream\<close>

text \<open>
  Claim C1. When the metadata gives a positive \<^verbatim>\<open>event_min\<close> and the \<^verbatim>\<open>get\<close> group holds
  the data and header records of the events \<^verbatim>\<open>event_min..event_max\<close> (both ends included),
  with the names below \<^verbatim>\<open>event_min\<close> that the renaming needs still free, the repair moves
  \<^verbatim>\<open>evt{event}_data\<close> to \<^verbatim>\<open>evt{idx}_data\<close> and \<^verbatim>\<open>evt{event}_header\<close> to \<^verbatim>\<open>evt{idx}_header\<close>
  for \<^verbatim>\<open>idx = event - event_min\<close>: every index \<^verbatim>\<open>0..event_max - event_min\<close> holds the
  record that was \<^verbatim>\<open>event_min\<close> higher, the old names above that range are gone, every
  other key is untouched, and the metadata has 0 at position 0 and
  \<^verbatim>\<open>event_max - event_min\<close> at position 2. The witness is the group with the events 5..10.
\<close>

theorem get_offset_repair:
  assumes meta: "meta_data file = Some md" "3 \<le> length md"
    and emin: "event_min = py_int (md ! 0)" and emax: "event_max = py_int (md ! 2)"
    and pos: "0 < event_min"
    and grp: "get_group file = Some g"
    and present: "\<forall>e\<in>set [event_min..event_max].
        Mapping.lookup g (evt_key e ''data'') \<noteq> None \<and> Mapping.lookup g (evt_key e ''header'') \<noteq> None"
    and free: "\<forall>i\<in>set [0..event_max - event_min]. i < event_min \<longrightarrow>
        Mapping.lookup g (evt_key i ''data'') = None \<and> Mapping.lookup g (evt_key i ''header'') = None"
    and run: "fix_event_numbers file = (err, printed, file')"
  shows "\<exists>g'. get_group file' = Some g' \<and>
     (\<forall>idx\<in>set [0..event_max - event_min].
        Mapping.lookup g' (evt_key idx ''data'') = Mapping.lookup g (evt_key (event_min + idx) ''data'') \<and>
        Mapping.lookup g' (evt_key idx ''header'') = Mapping.lookup g (evt_key (event_min + idx) ''header'')) \<and>
     (\<forall>e\<in>set [event_min..event_max]. event_max - event_min < e \<longrightarrow>
        Mapping.lookup g' (evt_key e ''data'') = None \<and> Mapping.lookup g' (evt_key e ''header'') = None) \<and>
     (\<forall>k. (\<forall>j\<in>set [0..event_max - event_min] \<union> set [event_min..event_max].
              k \<noteq> evt_key j ''data'' \<and> k \<noteq> evt_key j ''header'') \<longrightarrow>
        Mapping.lookup g' k = Mapping.lookup g k) \<and>
     meta_data file' = Some (md[0 := 0, 2 := real_of_int (event_max - event_min)])"
proof -
  from get_loop_correct [OF pos present free] obtain g' where
    loop: "for_each get_body (enumerate 0 [event_min..event_max]) g = (None, g')"
    and post: "(\<forall>idx\<in>set [0..event_max - event_min].
        Mapping.lookup g' (evt_key idx ''data'') = Mapping.lookup g (evt_key (event_min + idx) ''data'') \<and>
        Mapping.lookup g' (evt_key idx ''header'') = Mapping.lookup g (evt_key (event_min + idx) ''header'')) \<and>
     (\<forall>e\<in>set [event_min..event_max]. event_max - event_min < e \<longrightarrow>
        Mapping.lookup g' (evt_key e ''data'') = None \<and> Mapping.lookup g' (evt_key e ''header'') = None) \<and>
     (\<forall>k. (\<forall>j\<in>set [0..event_max - event_min] \<union> set [event_min..event_max].
              k \<noteq> evt_key j ''data'' \<and> k \<noteq> evt_key j ''header'') \<longrightarrow>
        Mapping.lookup g' k = Mapping.lookup g k)"
    by blast
  define file1 where "file1 = file\<lparr>get_group := Some g',
      meta_data := Some (md[0 := 0, 2 := real_of_int (event_max - event_min)])\<rparr>"
  have got: "fix_get md (py_int (md ! 0)) (py_int (md ! 2)) file =
      (None, [Checking_GET, GET_offset_detected, GET_repaired], file1)"
    using pos grp loop by (simp add: fix_get_def file1_def emin [symmetric] emax [symmetric])
  obtain err2 printed2 file2 where
    f: "fix_frib getitem (py_int (md ! 2) - py_int (md ! 0)) file1 = (err2, printed2, file2)"
    by (metis prod_cases3)
  from run have "file' = file2"
    by (simp add: fix_event_numbers_def fix_event_numbers_with_phases [OF meta] got f)
  with fix_frib_get_meta [OF f] have "get_group file' = Some g'"
    "meta_data file' = Some (md[0 := 0, 2 := real_of_int (event_max - event_min)])"
    by (simp_all add: file1_def)
  with post show ?thesis by blast
qed


theorem get_offset_repair_witness:
  "(0::int) < 5 \<and>
   list_all (\<lambda>e. Mapping.lookup (Mapping.of_alist (get_records [5..10])) (evt_key e ''data'') \<noteq> None \<and>
                  Mapping.lookup (Mapping.of_alist (get_records [5..10])) (evt_key e ''header'') \<noteq> None)
     [5..10] \<and>
   (\<exists>g'. get_group (snd (snd (fix_event_numbers file_5_10))) = Some g' \<and>
      (\<forall>idx\<in>set [0..5].
         Mapping.lookup g' (evt_key idx ''data'') = Some [5 + real_of_int idx] \<and>
         Mapping.lookup g' (evt_key idx ''header'') = Some [5 + real_of_int idx, 0, 105 + real_of_int idx]) \<and>
      (\<forall>e\<in>set [6..10]. Mapping.lookup g' (evt_key e ''data'') = None \<and>
                        Mapping.lookup g' (evt_key e ''header'') = None) \<and>
      Mapping.keys g' = {''evt0_data'', ''evt0_header'', ''evt1_data'', ''evt1_header'',
        ''evt2_data'', ''evt2_header'', ''evt3_data'', ''evt3_header'',
        ''evt4_data'', ''evt4_header'', ''evt5_data'', ''evt5_header''}) \<and>
   meta_data (snd (snd (fix_event_numbers file_5_10))) = Some [0, 0, 5]"
proof -
  let ?g = "Mapping.of_alist (get_records [5..10])"
  let ?out = "snd (snd (fix_event_numbers file_5_10))"
  have m: "meta_data file_5_10 = Some [5, 0, 10]" by (simp add: file_5_10_def)
  have l: "3 \<le> length [5, 0, 10 :: real]" by simp
  have a: "5 = py_int ([5, 0, 10] ! 0)" and b: "10 = py_int ([5, 0, 10] ! 2)"
    by (simp_all add: py_int_def)
  have pos: "(0::int) < 5" by simp
  have g: "get_group file_5_10 = Some ?g" by (simp add: file_5_10_def)
  have present: "\<forall>e\<in>set [5..10]. Mapping.lookup ?g (evt_key e ''data'') \<noteq> None \<and>
      Mapping.lookup ?g (evt_key e ''header'') \<noteq> None" by code_simp
  have free: "\<forall>i\<in>set [0..10 - 5]. i < 5 \<longrightarrow> Mapping.lookup ?g (evt_key i ''data'') = None \<and>
      Mapping.lookup ?g (evt_key i ''header'') = None" by code_simp
  have run: "fix_event_numbers file_5_10 = (fst (fix_event_numbers file_5_10),
      fst (snd (fix_event_numbers file_5_10)), ?out)" by simp
  from get_offset_repair [OF m l a b pos g present free run] obtain g' where
    out: "get_group ?out = Some g'"
    and t: "\<forall>idx\<in>set [0..10 - 5].
        Mapping.lookup g' (evt_key idx ''data'') = Mapping.lookup ?g (evt_key (5 + idx) ''data'') \<and>
        Mapping.lookup g' (evt_key idx ''header'') = Mapping.lookup ?g (evt_key (5 + idx) ''header'')"
    and v: "\<forall>e\<in>set [5..10]. 10 - 5 < e \<longrightarrow>
        Mapping.lookup g' (evt_key e ''data'') = None \<and> Mapping.lookup g' (evt_key e ''header'') = None"
    and md: "meta_data ?out = Some ([5, 0, 10][0 := 0, 2 := real_of_int (10 - 5)])"
    by blast
  have src: "\<forall>idx\<in>set [0..5].
      Mapping.lookup ?g (evt_key (5 + idx) ''data'') = Some [5 + real_of_int idx] \<and>
      Mapping.lookup ?g (evt_key (5 + idx) ''header'') = Some [5 + real_of_int idx, 0, 105 + real_of_int idx]"
    by code_simp
  have keys: "Mapping.keys (the (get_group ?out)) = {''evt0_data'', ''evt0_header'', ''evt1_data'', ''evt1_header'',
        ''evt2_data'', ''evt2_header'', ''evt3_data'', ''evt3_header'',
        ''evt4_data'', ''evt4_header'', ''evt5_data'', ''evt5_header''}"
    by code_simp
  have t': "\<forall>idx\<in>set [0..5].
         Mapping.lookup g' (evt_key idx ''data'') = Some [5 + real_of_int idx] \<and>
         Mapping.lookup g' (evt_key idx ''header'') = Some [5 + real_of_int idx, 0, 105 + real_of_int idx]"
  proof
    fix idx :: int assume i: "idx \<in> set [0..5]"
    then have "idx \<in> set [0..10 - 5]" by auto
    with t have "Mapping.lookup g' (evt_key idx ''data'') = Mapping.lookup ?g (evt_key (5 + idx) ''data'')"
      "Mapping.lookup g' (evt_key idx ''header'') = Mapping.lookup ?g (evt_key (5 + idx) ''header'')"
      by blast+
    with src i show "Mapping.lookup g' (evt_key idx ''data'') = Some [5 + real_of_int idx] \<and>
         Mapping.lookup g' (evt_key idx ''header'') = Some [5 + real_of_int idx, 0, 105 + real_of_int idx]"
      by metis
  qed
  have v': "\<forall>e\<in>set [6..10]. Mapping.lookup g' (evt_key e ''data'') = None \<and>
                        Mapping.lookup g' (evt_key e ''header'') = None"
  proof
    fix e :: int assume "e \<in> set [6..10]"
    then have "e \<in> set [5..10]" "10 - 5 < e" by auto
    with v show "Mapping.lookup g' (evt_key e ''data'') = None \<and>
                        Mapping.lookup g' (evt_key e ''header'') = None" by blast
  qed
  have md': "meta_data ?out = Some [0, 0, 5]" using md by simp
  have k': "Mapping.keys g' = {''evt0_data'', ''evt0_header'', ''evt1_data'', ''evt1_header'',
        ''evt2_data'', ''evt2_header'', ''evt3_data'', ''evt3_header'',
        ''evt4_data'', ''evt4_header'', ''evt5_data'', ''evt5_header''}"
    using keys unfolding out option.sel .
  show ?thesis
    apply (intro conjI)
       apply (rule pos)
      apply (unfold list_all_iff) [1]
      apply (rule present)
     apply (rule exI [of _ g'])
     apply (intro conjI)
        apply (rule out)
       apply (rule t')
      apply (rule v')
     apply (rule k')
    apply (rule md')
    done
qed


lemma probe_evt0_absent:
  "Mapping.lookup g (evt_key 0 ''1903'') = None \<Longrightarrow> probe getitem g r = (False, [])"
  by (simp add: probe_def getitem_def evt0_1903)


section \<open>The shift-by-one repair of the beam-diagnostics stream\<close>

text \<open>
  Claim C2. After a tracking-stream phase that did not raise, a \<^verbatim>\<open>frib/evt\<close> group holding
  \<^verbatim>\<open>evt1_1903..evt{R+1}_1903\<close> with their headers and nothing at index 0 (\<^verbatim>\<open>R\<close> being
  \<^verbatim>\<open>event_range\<close>, at least 0) is found to need repair, and the repair moves
  \<^verbatim>\<open>evt{event+1}_1903\<close> to \<^verbatim>\<open>evt{event}_1903\<close> and \<^verbatim>\<open>evt{event+1}_header\<close> to
  \<^verbatim>\<open>evt{event}_header\<close> for \<^verbatim>\<open>event\<close> in \<^verbatim>\<open>0..R\<close>: the run returns without an exception, every
  index \<^verbatim>\<open>0..R\<close> holds the record that was one higher, nothing remains at index \<^verbatim>\<open>R+1\<close>,
  and every other key is untouched.
\<close>

theorem frib_shift_repair:
  assumes meta: "meta_data file = Some md" "3 \<le> length md"
    and got: "fix_get md (py_int (md ! 0)) (py_int (md ! 2)) file = (None, printed1, file1)"
    and r: "event_range = py_int (md ! 2) - py_int (md ! 0)" and r0: "0 \<le> event_range"
    and frib: "frib_evt file = FribEvt g"
    and present: "\<forall>e\<in>set [1..event_range + 1].
        Mapping.lookup g (evt_key e ''1903'') \<noteq> None \<and> Mapping.lookup g (evt_key e ''header'') \<noteq> None"
    and free: "Mapping.lookup g (evt_key 0 ''1903'') = None \<and> Mapping.lookup g (evt_key 0 ''header'') = None"
  shows "\<exists>g'. fix_event_numbers file =
       (None, Fixing_run # printed1 @ [Checking_FRIB, FRIB_offset_detected, Run_fixed],
        file1\<lparr>frib_evt := FribEvt g'\<rparr>) \<and>
     (\<forall>event\<in>set [0..event_range].
        Mapping.lookup g' (evt_key event ''1903'') = Mapping.lookup g (evt_key (event + 1) ''1903'') \<and>
        Mapping.lookup g' (evt_key event ''header'') = Mapping.lookup g (evt_key (event + 1) ''header'')) \<and>
     Mapping.lookup g' (evt_key (event_range + 1) ''1903'') = None \<and>
     Mapping.lookup g' (evt_key (event_range + 1) ''header'') = None \<and>
     (\<forall>k. (\<forall>j\<in>set [0..event_range + 1]. k \<noteq> evt_key j ''1903'' \<and> k \<noteq> evt_key j ''header'') \<longrightarrow>
        Mapping.lookup g' k = Mapping.lookup g k)"
proof -
  from frib_loop_correct [OF present free] r0 obtain g' where
    loop: "for_each frib_body [0..event_range] g = (None, g')"
    and post: "(\<forall>event\<in>set [0..event_range].
        Mapping.lookup g' (evt_key event ''1903'') = Mapping.lookup g (evt_key (event + 1) ''1903'') \<and>
        Mapping.lookup g' (evt_key event ''header'') = Mapping.lookup g (evt_key (event + 1) ''header'')) \<and>
     Mapping.lookup g' (evt_key (event_range + 1) ''1903'') = None \<and>
     Mapping.lookup g' (evt_key (event_range + 1) ''header'') = None \<and>
     (\<forall>k. (\<forall>j\<in>set [0..event_range + 1]. k \<noteq> evt_key j ''1903'' \<and> k \<noteq> evt_key j ''header'') \<longrightarrow>
        Mapping.lookup g' k = Mapping.lookup g k)"
    by blast
  have f1: "frib_evt file1 = FribEvt g" using fix_get_frib_evt [OF got] frib by simp
  have "1 \<in> set [1..event_range + 1]" using r0 by simp
  with present have "Mapping.lookup g (evt_key 1 ''1903'') \<noteq> None" by blast
  then have ne: "\<not> Mapping.is_empty g" by (rule not_is_empty)
  have pr: "probe getitem g event_range = (False, [])"
    using free by (simp add: probe_evt0_absent)
  have "fix_frib getitem event_range file1 =
      (None, [Checking_FRIB, FRIB_offset_detected, Run_fixed], file1\<lparr>frib_evt := FribEvt g'\<rparr>)"
    by (simp add: fix_frib_def f1 ne pr loop)
  then have "fix_event_numbers file =
       (None, Fixing_run # printed1 @ [Checking_FRIB, FRIB_offset_detected, Run_fixed],
        file1\<lparr>frib_evt := FribEvt g'\<rparr>)"
    by (simp add: fix_event_numbers_def fix_event_numbers_with_phases [OF meta] got r [symmetric])
  with post show ?thesis by blast
qed

theorem frib_shift_repair_witness:
  "list_all (\<lambda>e. Mapping.lookup (Mapping.of_alist (frib_records [1..4])) (evt_key e ''1903'') \<noteq> None \<and>
                  Mapping.lookup (Mapping.of_alist (frib_records [1..4])) (evt_key e ''header'') \<noteq> None)
     [1..4] \<and>
   (\<exists>g'. fix_event_numbers file_0_3 =
       (None, [Fixing_run, Checking_GET, Checking_FRIB, FRIB_offset_detected, Run_fixed],
        file_0_3\<lparr>frib_evt := FribEvt g'\<rparr>) \<and>
      (\<forall>event\<in>set [0..3].
         Mapping.lookup g' (evt_key event ''1903'') = Some [real_of_int event + 1] \<and>
         Mapping.lookup g' (evt_key event ''header'') = Some [real_of_int event + 1, real_of_int event + 1]) \<and>
      Mapping.lookup g' ''evt4_1903'' = None \<and>
      Mapping.keys g' = {''evt0_1903'', ''evt0_header'', ''evt1_1903'', ''evt1_header'',
        ''evt2_1903'', ''evt2_header'', ''evt3_1903'', ''evt3_header''})"
proof -
  let ?g = "Mapping.of_alist (frib_records [1..4])"
  have m: "meta_data file_0_3 = Some [0, 0, 3]" by (simp add: file_0_3_def)
  have l: "3 \<le> length [0, 0, 3 :: real]" by simp
  have a: "py_int ([0, 0, 3] ! 0) = 0" "py_int ([0, 0, 3] ! 2) = 3" by (simp_all add: py_int_def)
  have got: "fix_get [0, 0, 3] (py_int ([0, 0, 3] ! 0)) (py_int ([0, 0, 3] ! 2)) file_0_3 =
      (None, [Checking_GET], file_0_3)"
    unfolding a by (simp add: fix_get_def)
  have r: "3 = py_int ([0, 0, 3] ! 2) - py_int ([0, 0, 3] ! 0)" unfolding a by simp
  have r0: "(0::int) \<le> 3" by simp
  have f: "frib_evt file_0_3 = FribEvt ?g" by (simp add: file_0_3_def)
  have present: "\<forall>e\<in>set [1..3 + 1]. Mapping.lookup ?g (evt_key e ''1903'') \<noteq> None \<and>
      Mapping.lookup ?g (evt_key e ''header'') \<noteq> None" by code_simp
  have present': "\<forall>e\<in>set [1..4]. Mapping.lookup ?g (evt_key e ''1903'') \<noteq> None \<and>
      Mapping.lookup ?g (evt_key e ''header'') \<noteq> None" by code_simp
  have free: "Mapping.lookup ?g (evt_key 0 ''1903'') = None \<and>
      Mapping.lookup ?g (evt_key 0 ''header'') = None" by code_simp
  from frib_shift_repair [OF m l got r r0 f present free] obtain g' where
    out: "fix_event_numbers file_0_3 =
       (None, Fixing_run # [Checking_GET] @ [Checking_FRIB, FRIB_offset_detected, Run_fixed],
        file_0_3\<lparr>frib_evt := FribEvt g'\<rparr>)"
    and t: "\<forall>event\<in>set [0..3].
        Mapping.lookup g' (evt_key event ''1903'') = Mapping.lookup ?g (evt_key (event + 1) ''1903'') \<and>
        Mapping.lookup g' (evt_key event ''header'') = Mapping.lookup ?g (evt_key (event + 1) ''header'')"
    and v: "Mapping.lookup g' (evt_key (3 + 1) ''1903'') = None"
    by blast
  have out': "fix_event_numbers file_0_3 =
       (None, [Fixing_run, Checking_GET, Checking_FRIB, FRIB_offset_detected, Run_fixed],
        file_0_3\<lparr>frib_evt := FribEvt g'\<rparr>)"
    using out by simp
  have src: "\<forall>event\<in>set [0..3].
      Mapping.lookup ?g (evt_key (event + 1) ''1903'') = Some [real_of_int event + 1] \<and>
      Mapping.lookup ?g (evt_key (event + 1) ''header'') = Some [real_of_int event + 1, real_of_int event + 1]"
    by code_simp
  have t': "\<forall>event\<in>set [0..3].
         Mapping.lookup g' (evt_key event ''1903'') = Some [real_of_int event + 1] \<and>
         Mapping.lookup g' (evt_key event ''header'') = Some [real_of_int event + 1, real_of_int event + 1]"
  proof
    fix event :: int assume i: "event \<in> set [0..3]"
    with t have "Mapping.lookup g' (evt_key event ''1903'') = Mapping.lookup ?g (evt_key (event + 1) ''1903'')"
      "Mapping.lookup g' (evt_key event ''header'') = Mapping.lookup ?g (evt_key (event + 1) ''header'')"
      by blast+
    with src i show "Mapping.lookup g' (evt_key event ''1903'') = Some [real_of_int event + 1] \<and>
         Mapping.lookup g' (evt_key event ''header'') = Some [real_of_int event + 1, real_of_int event + 1]"
      by metis
  qed
  have k4: "evt_key (3 + 1) ''1903'' = ''evt4_1903''" by code_simp
  have v': "Mapping.lookup g' ''evt4_1903'' = None" using v unfolding k4 .
  have keys: "(case frib_evt (snd (snd (fix_event_numbers file_0_3))) of FribEvt h \<Rightarrow> Mapping.keys h | _ \<Rightarrow> {}) =
      {''evt0_1903'', ''evt0_header'', ''evt1_1903'', ''evt1_header'',
       ''evt2_1903'', ''evt2_header'', ''evt3_1903'', ''evt3_header''}"
    by code_simp
  have sel: "frib_evt (snd (snd (fix_event_numbers file_0_3))) = FribEvt g'"
    unfolding out' by simp
  have k': "Mapping.keys g' = {''evt0_1903'', ''evt0_header'', ''evt1_1903'', ''evt1_header'',
       ''evt2_1903'', ''evt2_header'', ''evt3_1903'', ''evt3_header''}"
    using keys unfolding sel frib_node.case .
  show ?thesis
    apply (intro conjI)
     apply (unfold list_all_iff) [1]
     apply (rule present')
    apply (rule exI [of _ g'])
    apply (intro conjI)
       apply (rule out')
      apply (rule t')
     apply (rule v')
    apply (rule k')
    done
qed

section \<open>A loop stopped part-way\<close>

lemma move_done:
  "move old new g = (None, g') \<Longrightarrow> Mapping.lookup g old \<noteq> None \<and> Mapping.lookup g new = None"
  by (auto simp: move_def split: option.splits if_splits)

lemma upto_from_as_map: "[a + int k..b] = map (\<lambda>i. a + int i) [k..<nat (b - a + 1)]"
proof (cases "k \<le> nat (b - a + 1)")
  case True
  then have "[k..<nat (b - a + 1)] = map (\<lambda>i. i + k) [0..<nat (b - a + 1) - k]"
    by (simp add: map_add_upt)
  moreover have "nat (b - (a + int k) + 1) = nat (b - a + 1) - k" by linarith
  ultimately show ?thesis
    by (simp add: upto_as_map [of "a + int k" b] o_def add.assoc add.commute)
next
  case False
  then have "b < a + int k" by linarith
  with False show ?thesis by simp
qed

lemma get_loop_from_eq:
  "for_each get_body (enumerate k [a + int k..b]) g =
   for_each (pair_shift ''data'' ''header'' a) [k..<nat (b - a + 1)] g"
proof -
  have "(\<lambda>k. get_body (k, a + int k)) = pair_shift ''data'' ''header'' a"
    by (rule ext, rule ext) (simp add: get_body_def pair_shift_def)
  then show ?thesis
    by (simp add: upto_from_as_map enumerate_map_upt for_each_map)
qed

lemma frib_loop_from_eq:
  "for_each frib_body [int k..r] g = for_each (pair_shift ''1903'' ''header'' 1) [k..<nat (r + 1)] g"
proof -
  have "(\<lambda>k. frib_body (int k)) = pair_shift ''1903'' ''header'' 1"
    by (rule ext, rule ext)
      (simp add: frib_body_def pair_shift_def add.commute split: prod.splits option.splits)
  then show ?thesis
    using upto_from_as_map [of 0 k r] by (simp add: for_each_map)
qed

lemma pair_shift_targets_free:
  assumes s: "0 < s"
    and disj: "\<And>m n. evt_key m ka \<noteq> evt_key n kb"
    and present: "\<And>i. i < N \<Longrightarrow> Mapping.lookup g (evt_key (s + int i) ka) \<noteq> None \<and>
                                  Mapping.lookup g (evt_key (s + int i) kb) \<noteq> None"
    and free: "\<And>i. i < N \<Longrightarrow> int i < s \<Longrightarrow> Mapping.lookup g (evt_key (int i) ka) = None \<and>
                                  Mapping.lookup g (evt_key (int i) kb) = None"
    and n: "n < N"
  shows "\<exists>h h1 h2. for_each (pair_shift ka kb s) [0..<n] g = (None, h) \<and>
      for_each (pair_shift ka kb s) [0..<N] g = for_each (pair_shift ka kb s) [n..<N] h \<and>
      Mapping.lookup h (evt_key (int n) ka) = None \<and>
      move (evt_key (s + int n) ka) (evt_key (int n) ka) h = (None, h1) \<and>
      Mapping.lookup h1 (evt_key (int n) kb) = None \<and>
      move (evt_key (s + int n) kb) (evt_key (int n) kb) h1 = (None, h2)"
proof -
  have p: "\<And>i. i < n \<Longrightarrow> Mapping.lookup g (evt_key (s + int i) ka) \<noteq> None \<and>
                           Mapping.lookup g (evt_key (s + int i) kb) \<noteq> None"
    using present n by simp
  have f: "\<And>i. i < n \<Longrightarrow> int i < s \<Longrightarrow> Mapping.lookup g (evt_key (int i) ka) = None \<and>
                           Mapping.lookup g (evt_key (int i) kb) = None"
    using free n by simp
  from pair_shift_loop [of s ka kb n g, OF s disj p f] obtain h where
    run: "for_each (pair_shift ka kb s) [0..<n] g = (None, h)"
    and ia: "shifted ka s n g h" and ib: "shifted kb s n g h" by blast
  from present [OF n] obtain va vb where
    va: "Mapping.lookup g (evt_key (s + int n) ka) = Some va"
    and vb: "Mapping.lookup g (evt_key (s + int n) kb) = Some vb" by auto
  have fa: "int n < s \<Longrightarrow> Mapping.lookup g (evt_key (int n) ka) = None"
    and fb: "int n < s \<Longrightarrow> Mapping.lookup g (evt_key (int n) kb) = None"
    using free [OF n] by simp_all
  let ?h1 = "Mapping.update (evt_key (int n) ka) va (Mapping.delete (evt_key (s + int n) ka) h)"
  let ?h2 = "Mapping.update (evt_key (int n) kb) vb (Mapping.delete (evt_key (s + int n) kb) ?h1)"
  have m1: "move (evt_key (s + int n) ka) (evt_key (int n) ka) h = (None, ?h1)"
    using shifted_step(1) [OF ia s va fa] by simp
  have ib1: "shifted kb s n g ?h1"
    using ib by (rule shifted_other) (simp add: lookup_moved disj [symmetric])
  have m2: "move (evt_key (s + int n) kb) (evt_key (int n) kb) ?h1 = (None, ?h2)"
    using shifted_step(1) [OF ib1 s vb fb] by simp
  have "[0..<N] = [0..<n] @ [n..<N]"
    using n by (metis le_add_diff_inverse less_imp_le_nat upt_add_eq_append zero_le)
  then have "for_each (pair_shift ka kb s) [0..<N] g = for_each (pair_shift ka kb s) [n..<N] h"
    by (simp add: for_each_append run)
  with run m1 m2 move_done [OF m1] move_done [OF m2] show ?thesis by blast
qed



section \<open>No rename lands on a key that is still in use\<close>

text \<open>
  Claim C8. In the offset loop of the \<^verbatim>\<open>get\<close> group (positive \<^verbatim>\<open>event_min\<close>, so that
  \<^verbatim>\<open>idx \<le> event\<close>; the records \<^verbatim>\<open>event_min..event_max\<close> present and nothing below them in the
  way) and in the shift-by-one loop of the \<^verbatim>\<open>frib/evt\<close> group (the records
  \<^verbatim>\<open>1..event_range + 1\<close> present and nothing at index 0), every round is reached without
  an exception, and at the moment of each of its two renames the target key is absent
  from the group as it is then. The group \<open>h\<close> in which round \<open>idx\<close> starts is the one the
  loop has made of the earlier rounds: the whole loop is the rest of the loop run from
  \<open>h\<close>. The witness is the boundary case \<^verbatim>\<open>event_range == 0\<close>.
\<close>

theorem rename_targets_free:
  "(0 < event_min \<and>
    (\<forall>e\<in>set [event_min..event_max].
       Mapping.lookup g (evt_key e ''data'') \<noteq> None \<and> Mapping.lookup g (evt_key e ''header'') \<noteq> None) \<and>
    (\<forall>i\<in>set [0..event_max - event_min]. i < event_min \<longrightarrow>
       Mapping.lookup g (evt_key i ''data'') = None \<and> Mapping.lookup g (evt_key i ''header'') = None) \<longrightarrow>
    (\<forall>idx\<in>set [0..event_max - event_min]. \<exists>h h1 h2.
       for_each get_body (enumerate 0 [event_min..event_min + idx - 1]) g = (None, h) \<and>
       for_each get_body (enumerate 0 [event_min..event_max]) g =
         for_each get_body (enumerate (nat idx) [event_min + idx..event_max]) h \<and>
       Mapping.lookup h (evt_key idx ''data'') = None \<and>
       move (evt_key (event_min + idx) ''data'') (evt_key idx ''data'') h = (None, h1) \<and>
       Mapping.lookup h1 (evt_key idx ''header'') = None \<and>
       move (evt_key (event_min + idx) ''header'') (evt_key idx ''header'') h1 = (None, h2))) \<and>
   ((\<forall>e\<in>set [1..event_range + 1].
       Mapping.lookup d (evt_key e ''1903'') \<noteq> None \<and> Mapping.lookup d (evt_key e ''header'') \<noteq> None) \<and>
    Mapping.lookup d (evt_key 0 ''1903'') = None \<and> Mapping.lookup d (evt_key 0 ''header'') = None \<longrightarrow>
    (\<forall>event\<in>set [0..event_range]. \<exists>h h1 h2.
       for_each frib_body [0..event - 1] d = (None, h) \<and>
       for_each frib_body [0..event_range] d = for_each frib_body [event..event_range] h \<and>
       Mapping.lookup h (evt_key event ''1903'') = None \<and>
       move (evt_key (event + 1) ''1903'') (evt_key event ''1903'') h = (None, h1) \<and>
       Mapping.lookup h1 (evt_key event ''header'') = None \<and>
       move (evt_key (event + 1) ''header'') (evt_key event ''header'') h1 = (None, h2)))"
proof (intro conjI impI ballI)
  fix idx
  assume hyp: "0 < event_min \<and>
    (\<forall>e\<in>set [event_min..event_max].
       Mapping.lookup g (evt_key e ''data'') \<noteq> None \<and> Mapping.lookup g (evt_key e ''header'') \<noteq> None) \<and>
    (\<forall>i\<in>set [0..event_max - event_min]. i < event_min \<longrightarrow>
       Mapping.lookup g (evt_key i ''data'') = None \<and> Mapping.lookup g (evt_key i ''header'') = None)"
    and idx: "idx \<in> set [0..event_max - event_min]"
  define N where "N = nat (event_max - event_min + 1)"
  define n where "n = nat idx"
  from idx have n: "n < N" and i: "int n = idx" by (auto simp: n_def N_def)
  have pos: "0 < event_min" using hyp by simp
  have p: "\<And>i. i < N \<Longrightarrow> Mapping.lookup g (evt_key (event_min + int i) ''data'') \<noteq> None \<and>
                           Mapping.lookup g (evt_key (event_min + int i) ''header'') \<noteq> None"
    using hyp by (auto simp: N_def)
  have f: "\<And>i. i < N \<Longrightarrow> int i < event_min \<Longrightarrow>
      Mapping.lookup g (evt_key (int i) ''data'') = None \<and>
      Mapping.lookup g (evt_key (int i) ''header'') = None"
    using hyp by (auto simp: N_def)
  have pre: "nat (event_min + idx - 1 - event_min + 1) = n" by (simp add: n_def)
  from pair_shift_targets_free [of event_min "''data''" "''header''" N g n,
      OF pos evt_key_data_header(1) p f n]
  show "\<exists>h h1 h2.
       for_each get_body (enumerate 0 [event_min..event_min + idx - 1]) g = (None, h) \<and>
       for_each get_body (enumerate 0 [event_min..event_max]) g =
         for_each get_body (enumerate (nat idx) [event_min + idx..event_max]) h \<and>
       Mapping.lookup h (evt_key idx ''data'') = None \<and>
       move (evt_key (event_min + idx) ''data'') (evt_key idx ''data'') h = (None, h1) \<and>
       Mapping.lookup h1 (evt_key idx ''header'') = None \<and>
       move (evt_key (event_min + idx) ''header'') (evt_key idx ''header'') h1 = (None, h2)"
    unfolding get_loop_eq pre N_def [symmetric] n_def [symmetric]
      get_loop_from_eq [of n event_min, unfolded i] i .
next
  fix event
  assume hyp: "(\<forall>e\<in>set [1..event_range + 1].
       Mapping.lookup d (evt_key e ''1903'') \<noteq> None \<and> Mapping.lookup d (evt_key e ''header'') \<noteq> None) \<and>
    Mapping.lookup d (evt_key 0 ''1903'') = None \<and> Mapping.lookup d (evt_key 0 ''header'') = None"
    and ev: "event \<in> set [0..event_range]"
  define N where "N = nat (event_range + 1)"
  define n where "n = nat event"
  from ev have n: "n < N" and i: "int n = event" by (auto simp: n_def N_def)
  have p: "\<And>i. i < N \<Longrightarrow> Mapping.lookup d (evt_key (1 + int i) ''1903'') \<noteq> None \<and>
                           Mapping.lookup d (evt_key (1 + int i) ''header'') \<noteq> None"
    using hyp by (auto simp: N_def)
  have f: "\<And>i. i < N \<Longrightarrow> int i < 1 \<Longrightarrow>
      Mapping.lookup d (evt_key (int i) ''1903'') = None \<and>
      Mapping.lookup d (evt_key (int i) ''header'') = None"
    using hyp by auto
  have pre: "nat (event - 1 + 1) = n" by (simp add: n_def)
  have c: "1 + event = event + 1" by simp
  from pair_shift_targets_free [of 1 "''1903''" "''header''" N d n,
      OF _ evt_key_1903_header(1) p f n]
  show "\<exists>h h1 h2.
       for_each frib_body [0..event - 1] d = (None, h) \<and>
       for_each frib_body [0..event_range] d = for_each frib_body [event..event_range] h \<and>
       Mapping.lookup h (evt_key event ''1903'') = None \<and>
       move (evt_key (event + 1) ''1903'') (evt_key event ''1903'') h = (None, h1) \<and>
       Mapping.lookup h1 (evt_key event ''header'') = None \<and>
       move (evt_key (event + 1) ''header'') (evt_key event ''header'') h1 = (None, h2)"
    unfolding frib_loop_eq pre N_def [symmetric]
      frib_loop_from_eq [of n, unfolded i] i c by simp
qed

theorem rename_targets_free_witness:
  "((0::int) < 7 \<and>
    list_all (\<lambda>e.
       Mapping.lookup (Mapping.of_alist (get_records [7])) (evt_key e ''data'') \<noteq> None \<and>
       Mapping.lookup (Mapping.of_alist (get_records [7])) (evt_key e ''header'') \<noteq> None) [7..7] \<and>
    list_all (\<lambda>i. i < 7 \<longrightarrow>
       Mapping.lookup (Mapping.of_alist (get_records [7])) (evt_key i ''data'') = None \<and>
       Mapping.lookup (Mapping.of_alist (get_records [7])) (evt_key i ''header'') = None) [0..7 - 7]) \<and>
   (\<exists>h h1 h2.
       for_each get_body (enumerate 0 [7..6]) (Mapping.of_alist (get_records [7])) = (None, h) \<and>
       Mapping.lookup h (evt_key 0 ''data'') = None \<and>
       move (evt_key 7 ''data'') (evt_key 0 ''data'') h = (None, h1) \<and>
       Mapping.lookup h1 (evt_key 0 ''header'') = None \<and>
       move (evt_key 7 ''header'') (evt_key 0 ''header'') h1 = (None, h2)) \<and>
   (list_all (\<lambda>e.
       Mapping.lookup (Mapping.of_alist (frib_records [1])) (evt_key e ''1903'') \<noteq> None \<and>
       Mapping.lookup (Mapping.of_alist (frib_records [1])) (evt_key e ''header'') \<noteq> None) [1..0 + 1] \<and>
    Mapping.lookup (Mapping.of_alist (frib_records [1])) (evt_key 0 ''1903'') = None \<and>
    Mapping.lookup (Mapping.of_alist (frib_records [1])) (evt_key 0 ''header'') = None) \<and>
   (\<exists>h h1 h2.
       for_each frib_body [0..- 1] (Mapping.of_alist (frib_records [1])) = (None, h) \<and>
       Mapping.lookup h (evt_key 0 ''1903'') = None \<and>
       move (evt_key 1 ''1903'') (evt_key 0 ''1903'') h = (None, h1) \<and>
       Mapping.lookup h1 (evt_key 0 ''header'') = None \<and>
       move (evt_key 1 ''header'') (evt_key 0 ''header'') h1 = (None, h2))"
proof -
  let ?G = "Mapping.of_alist (get_records [7])"
  let ?D = "Mapping.of_alist (frib_records [1])"
  note T = rename_targets_free [of 7 7 ?G 0 ?D]
  have hg: "(0::int) < 7 \<and>
    (\<forall>e\<in>set [7..7].
       Mapping.lookup ?G (evt_key e ''data'') \<noteq> None \<and> Mapping.lookup ?G (evt_key e ''header'') \<noteq> None) \<and>
    (\<forall>i\<in>set [0..7 - 7]. i < 7 \<longrightarrow>
       Mapping.lookup ?G (evt_key i ''data'') = None \<and> Mapping.lookup ?G (evt_key i ''header'') = None)"
    by code_simp
  have hd: "(\<forall>e\<in>set [1..0 + 1].
       Mapping.lookup ?D (evt_key e ''1903'') \<noteq> None \<and> Mapping.lookup ?D (evt_key e ''header'') \<noteq> None) \<and>
    Mapping.lookup ?D (evt_key 0 ''1903'') = None \<and> Mapping.lookup ?D (evt_key 0 ''header'') = None"
    by code_simp
  have z: "(0::int) \<in> set [0..7 - 7]" "(0::int) \<in> set [0..0]" by simp_all
  have a: "(7::int) - 1 = 6" "(7::int) + 0 = 7" "(0::int) - 1 = - 1" "(0::int) + 1 = 1" by simp_all
  from T [THEN conjunct1, THEN mp, OF hg, THEN bspec, OF z(1)] obtain h h1 h2 where
    "for_each get_body (enumerate 0 [7..6]) ?G = (None, h)"
    "Mapping.lookup h (evt_key 0 ''data'') = None"
    "move (evt_key 7 ''data'') (evt_key 0 ''data'') h = (None, h1)"
    "Mapping.lookup h1 (evt_key 0 ''header'') = None"
    "move (evt_key 7 ''header'') (evt_key 0 ''header'') h1 = (None, h2)"
    unfolding a by blast
  then have cg: "\<exists>h h1 h2.
       for_each get_body (enumerate 0 [7..6]) ?G = (None, h) \<and>
       Mapping.lookup h (evt_key 0 ''data'') = None \<and>
       move (evt_key 7 ''data'') (evt_key 0 ''data'') h = (None, h1) \<and>
       Mapping.lookup h1 (evt_key 0 ''header'') = None \<and>
       move (evt_key 7 ''header'') (evt_key 0 ''header'') h1 = (None, h2)"
    by blast
  from T [THEN conjunct2, THEN mp, OF hd, THEN bspec, OF z(2)] obtain k k1 k2 where
    "for_each frib_body [0..- 1] ?D = (None, k)"
    "Mapping.lookup k (evt_key 0 ''1903'') = None"
    "move (evt_key 1 ''1903'') (evt_key 0 ''1903'') k = (None, k1)"
    "Mapping.lookup k1 (evt_key 0 ''header'') = None"
    "move (evt_key 1 ''header'') (evt_key 0 ''header'') k1 = (None, k2)"
    unfolding a by blast
  then have cd: "\<exists>h h1 h2.
       for_each frib_body [0..- 1] ?D = (None, h) \<and>
       Mapping.lookup h (evt_key 0 ''1903'') = None \<and>
       move (evt_key 1 ''1903'') (evt_key 0 ''1903'') h = (None, h1) \<and>
       Mapping.lookup h1 (evt_key 0 ''header'') = None \<and>
       move (evt_key 1 ''header'') (evt_key 0 ''header'') h1 = (None, h2)"
    by blast
  show ?thesis
    apply (intro conjI)
           apply (rule hg [THEN conjunct1])
          apply (unfold list_all_iff) [1]
          apply (rule hg [THEN conjunct2, THEN conjunct1])
         apply (unfold list_all_iff) [1]
         apply (rule hg [THEN conjunct2, THEN conjunct2])
        apply (rule cg)
       apply (unfold list_all_iff) [1]
       apply (rule hd [THEN conjunct1])
      apply (rule hd [THEN conjunct2, THEN conjunct1])
     apply (rule hd [THEN conjunct2, THEN conjunct2])
    apply (rule cd)
    done
qed



section \<open>A rename that raises\<close>



section \<open>The probe swallows every exception\<close>

text \<open>
  Claim C10. Whatever the reading of \<^verbatim>\<open>evt0_1903\<close> or of \<^verbatim>\<open>evt{event_range}_1903\<close> raises
  in the probe, a missing key or anything else, the probe answers that repair is
  needed, and the run goes on to the shift-by-one loop: its outcome, exception included,
  is the outcome of that loop, so nothing the probe raises reaches the caller. The
  witness reads with a function that raises an index error on a file that the ordinary
  reading finds in order: the run enters the repair and stops on its first rename.
\<close>

theorem probe_exception_swallowed:
  assumes meta: "meta_data file = Some md" "3 \<le> length md"
    and got: "fix_get md (py_int (md ! 0)) (py_int (md ! 2)) file = (None, printed_get, file_get)"
    and r: "event_range = py_int (md ! 2) - py_int (md ! 0)"
    and frib: "frib_evt file = FribEvt d" and ne: "\<not> Mapping.is_empty d"
    and raised: "rd d ''evt0_1903'' = Inl e \<or> rd d (evt_key event_range ''1903'') = Inl e"
  shows "\<exists>seen. probe rd d event_range = (False, seen) \<and>
     fix_event_numbers_with rd file =
       (case for_each frib_body [0..event_range] d of
          (Some e', d') \<Rightarrow>
            (Some e', Fixing_run # printed_get @ Checking_FRIB # seen @ [FRIB_offset_detected],
             file_get\<lparr>frib_evt := FribEvt d'\<rparr>)
        | (None, d') \<Rightarrow>
            (None, Fixing_run # printed_get @ Checking_FRIB # seen @ [FRIB_offset_detected, Run_fixed],
             file_get\<lparr>frib_evt := FribEvt d'\<rparr>))"
proof -
  from raised have "\<exists>seen. probe rd d event_range = (False, seen)"
    by (cases "rd d ''evt0_1903''") (auto simp: probe_def)
  then obtain seen where pr: "probe rd d event_range = (False, seen)" by blast
  have f1: "frib_evt file_get = FribEvt d" using fix_get_frib_evt [OF got] frib by simp
  have "fix_frib rd event_range file_get =
       (case for_each frib_body [0..event_range] d of
          (Some e', d') \<Rightarrow>
            (Some e', Checking_FRIB # seen @ [FRIB_offset_detected], file_get\<lparr>frib_evt := FribEvt d'\<rparr>)
        | (None, d') \<Rightarrow>
            (None, Checking_FRIB # seen @ [FRIB_offset_detected, Run_fixed],
             file_get\<lparr>frib_evt := FribEvt d'\<rparr>))"
    by (simp add: fix_frib_def f1 ne pr)
  then have "fix_event_numbers_with rd file =
       (case for_each frib_body [0..event_range] d of
          (Some e', d') \<Rightarrow>
            (Some e', Fixing_run # printed_get @ Checking_FRIB # seen @ [FRIB_offset_detected],
             file_get\<lparr>frib_evt := FribEvt d'\<rparr>)
        | (None, d') \<Rightarrow>
            (None, Fixing_run # printed_get @ Checking_FRIB # seen @ [FRIB_offset_detected, Run_fixed],
             file_get\<lparr>frib_evt := FribEvt d'\<rparr>))"
    by (simp add: fix_event_numbers_with_phases [OF meta] got r [symmetric]
        split: prod.splits option.splits)
  with pr show ?thesis by blast
qed

theorem probe_exception_swallowed_witness:
  "failing_read (Mapping.of_alist (frib_records [0..5])) ''evt0_1903'' = Inl IndexError \<and>
   fst (fix_event_numbers file_in_order) = None \<and>
   FRIB_offset_detected \<notin> set (fst (snd (fix_event_numbers file_in_order))) \<and>
   fst (fix_event_numbers_with failing_read file_in_order) = Some (ExistsError ''evt0_1903'') \<and>
   fst (snd (fix_event_numbers_with failing_read file_in_order)) =
     [Fixing_run, Checking_GET, GET_offset_detected, GET_repaired, Checking_FRIB, FRIB_offset_detected]"
proof -
  let ?D = "Mapping.of_alist (frib_records [0..5])"
  let ?F = "fix_get [5, 0, 10] 5 10 file_in_order"
  have m: "meta_data file_in_order = Some [5, 0, 10]" by (simp add: file_in_order_def)
  have l: "3 \<le> length [5, 0, 10 :: real]" by simp
  have a: "py_int ([5, 0, 10] ! 0) = 5" "py_int ([5, 0, 10] ! 2) = 10" by (simp_all add: py_int_def)
  have e: "fst ?F = None" by code_simp
  have p: "fst (snd ?F) = [Checking_GET, GET_offset_detected, GET_repaired]" by code_simp
  have got: "fix_get [5, 0, 10] (py_int ([5, 0, 10] ! 0)) (py_int ([5, 0, 10] ! 2)) file_in_order =
      (None, [Checking_GET, GET_offset_detected, GET_repaired], snd (snd ?F))"
    unfolding a using e p by (metis prod.collapse)
  have r: "5 = py_int ([5, 0, 10] ! 2) - py_int ([5, 0, 10] ! 0)" unfolding a by simp
  have f: "frib_evt file_in_order = FribEvt ?D" by (simp add: file_in_order_def)
  have ne: "\<not> Mapping.is_empty ?D" by code_simp
  have rs: "failing_read ?D ''evt0_1903'' = Inl IndexError" by (simp add: failing_read_def)
  then have raised: "failing_read ?D ''evt0_1903'' = Inl IndexError \<or>
      failing_read ?D (evt_key 5 ''1903'') = Inl IndexError" by simp
  have lf: "fst (for_each frib_body [0..5] ?D) = Some (ExistsError ''evt0_1903'')" by code_simp
  then obtain d' where loop: "for_each frib_body [0..5] ?D = (Some (ExistsError ''evt0_1903''), d')"
    by (metis prod.collapse)
  from probe_exception_swallowed [where rd = failing_read, OF m l got r f ne raised]
  obtain seen where
    pr: "probe failing_read ?D 5 = (False, seen)"
    and run: "fix_event_numbers_with failing_read file_in_order =
       (Some (ExistsError ''evt0_1903''),
        Fixing_run # [Checking_GET, GET_offset_detected, GET_repaired] @ Checking_FRIB # seen @ [FRIB_offset_detected],
        snd (snd ?F)\<lparr>frib_evt := FribEvt d'\<rparr>)"
    unfolding loop by auto
  have "probe failing_read ?D 5 = (False, [])" by (simp add: probe_def failing_read_def)
  with pr have s: "seen = []" by simp
  have c1: "fst (fix_event_numbers_with failing_read file_in_order) = Some (ExistsError ''evt0_1903'')"
    unfolding run by simp
  have c2: "fst (snd (fix_event_numbers_with failing_read file_in_order)) =
     [Fixing_run, Checking_GET, GET_offset_detected, GET_repaired, Checking_FRIB, FRIB_offset_detected]"
    unfolding run s by simp
  have n1: "fst (fix_event_numbers file_in_order) = None" by code_simp
  have n2: "FRIB_offset_detected \<notin> set (fst (snd (fix_event_numbers file_in_order)))" by code_simp
  show ?thesis
    apply (intro conjI)
        apply (rule rs)
       apply (rule n1)
      apply (rule n2)
     apply (rule c1)
    apply (rule c2)
    done
qed

section \<open>The scan of the check\<close>

lemma scan_all_within:
  "(\<forall>N\<in>set xs. \<exists>found a b. this_offset gg fg N = Inr (found, a, b) \<and>
      drifted ar found offset = Inr False) \<Longrightarrow>
   scan ar gg fg offset xs = Inr Match"
  by (induction xs) auto

lemma scan_first_beyond:
  assumes "\<forall>N\<in>set xs. \<exists>found a b. this_offset gg fg N = Inr (found, a, b) \<and>
      drifted ar found offset = Inr False"
    and "this_offset gg fg m = Inr (found, a, b)" and "drifted ar found offset = Inr True"
  shows "scan ar gg fg offset (xs @ m # ys) = Inr (Mismatch m found a (float_of ar b) offset)"
  using assms by (induction xs) auto

lemma check_timestamps_scan:
  assumes "meta_data file = Some md" "3 \<le> length md"
    and "get_group file = Some gg" and "frib_evt file = FribEvt fg"
    and "field gg (evt_key (py_int (md ! 0)) ''header'') 2 = Inr t_get"
    and "field fg (evt_key (py_int (md ! 0)) ''header'') 1 = Inr t_frib"
  shows "check_timestamps_with ar file =
    scan ar gg fg (float_sub ar (float_of ar t_get) (float_of ar t_frib))
      [py_int (md ! 0)..py_int (md ! 2) - 1]"
  using assms by (simp add: check_timestamps_with_def Let_def)

text \<open>
  The arithmetic of doubles at work: the timestamps \<open>2\<^sup>5\<^sup>3 + 2\<close> against 1 give the reference
  offset \<open>2\<^sup>5\<^sup>3\<close>, since \<open>2\<^sup>5\<^sup>3 + 1\<close> is no double, and against 0 at the next index a
  difference of 2, which is reported; in exact arithmetic the difference would be 1.
\<close>

lemma check_timestamps_rounds_as_doubles:
  "check_timestamps file_large =
     Inr (Mismatch 1 9007199254740994 9007199254740994 (Finite 0) (Finite 9007199254740992))"
  unfolding check_timestamps_def by code_simp

text \<open>
  Claim C4. The check reads the reference offset at \<^verbatim>\<open>event_min\<close> and scans the indices
  \<^verbatim>\<open>event_min..event_max - 1\<close> upwards. If \<^verbatim>\<open>event\<close> is the first index at which the test
  \<^verbatim>\<open>this_offset - offset > 1\<close> of the source succeeds (the headers before it being
  readable and the test failing there), the check reports the mismatch with that index,
  the offset found, the two timestamps and the offset expected, whatever the later
  indices hold: they are not read. If every scanned index is readable and fails the
  test, the check reports a match. This holds for the test as the source computes it,
  in whatever arithmetic the floats have. In the witness, in the arithmetic of doubles,
  the index after the reported one has no header and the one after that is off as well.
\<close>

theorem first_mismatch_reported:
  assumes meta: "meta_data file = Some md" "3 \<le> length md"
    and emin: "event_min = py_int (md ! 0)" and emax: "event_max = py_int (md ! 2)"
    and grp: "get_group file = Some gg" and frib: "frib_evt file = FribEvt fg"
    and ref_get: "field gg (evt_key event_min ''header'') 2 = Inr t_get"
    and ref_frib: "field fg (evt_key event_min ''header'') 1 = Inr t_frib"
    and off: "offset = float_sub ar (float_of ar t_get) (float_of ar t_frib)"
  shows
   "(event \<in> set [event_min..event_max - 1] \<and>
     (\<forall>N\<in>set [event_min..event - 1]. \<exists>found a b.
        this_offset gg fg N = Inr (found, a, b) \<and> drifted ar found offset = Inr False) \<and>
     this_offset gg fg event = Inr (found, a, b) \<and> drifted ar found offset = Inr True \<longrightarrow>
       check_timestamps_with ar file = Inr (Mismatch event found a (float_of ar b) offset)) \<and>
    ((\<forall>N\<in>set [event_min..event_max - 1]. \<exists>found a b.
        this_offset gg fg N = Inr (found, a, b) \<and> drifted ar found offset = Inr False) \<longrightarrow>
       check_timestamps_with ar file = Inr Match)"
proof -
  have run: "check_timestamps_with ar file = scan ar gg fg offset [event_min..event_max - 1]"
    unfolding emin emax off
    by (rule check_timestamps_scan [OF meta grp frib ref_get [unfolded emin] ref_frib [unfolded emin]])
  show ?thesis
  proof (intro conjI impI)
    assume a: "event \<in> set [event_min..event_max - 1] \<and>
     (\<forall>N\<in>set [event_min..event - 1]. \<exists>found a b.
        this_offset gg fg N = Inr (found, a, b) \<and> drifted ar found offset = Inr False) \<and>
     this_offset gg fg event = Inr (found, a, b) \<and> drifted ar found offset = Inr True"
    then have "event_min \<le> event" "event \<le> event_max - 1" by auto
    then have "[event_min..event_max - 1] = [event_min..event - 1] @ event # [event + 1..event_max - 1]"
      by (rule upto_split3)
    with a show "check_timestamps_with ar file = Inr (Mismatch event found a (float_of ar b) offset)"
      unfolding run by (simp add: scan_first_beyond)
  next
    assume "\<forall>N\<in>set [event_min..event_max - 1]. \<exists>found a b.
        this_offset gg fg N = Inr (found, a, b) \<and> drifted ar found offset = Inr False"
    then show "check_timestamps_with ar file = Inr Match"
      unfolding run by (rule scan_all_within)
  qed
qed

theorem first_mismatch_reported_witness:
  "this_offset mismatch_get mismatch_frib 2 = Inr (103, 103, 0) \<and>
   drifted py_floats 103 (Finite 100) = Inr True \<and>
   check_timestamps file_mismatch = Inr (Mismatch 2 103 103 (Finite 0) (Finite 100)) \<and>
   Mapping.lookup mismatch_get (evt_key 3 ''header'') = None \<and>
   this_offset mismatch_get mismatch_frib 4 = Inr (500, 500, 0) \<and>
   list_all (\<lambda>N. \<exists>found a b.
      this_offset (Mapping.of_alist (get_records [0..3])) (Mapping.of_alist (frib_records [0..3])) N =
        Inr (found, a, b) \<and> drifted py_floats found (Finite 100) = Inr False) [0..3 - 1] \<and>
   check_timestamps file_sync = Inr Match"
proof -
  let ?G = "Mapping.of_alist (get_records [0..3])"
  let ?F = "Mapping.of_alist (frib_records [0..3])"
  have off: "Finite 100 = float_sub py_floats (float_of py_floats 100) (float_of py_floats 0)"
    by code_simp
  have fl0: "float_of py_floats 0 = Finite 0" by code_simp
  have d100: "drifted py_floats 100 (Finite 100) = Inr False" by code_simp
  have d101: "drifted py_floats 101 (Finite 100) = Inr False" by code_simp
  have d103: "drifted py_floats 103 (Finite 100) = Inr True" by code_simp
  have m1: "meta_data file_mismatch = Some [0, 0, 5]" by (simp add: file_mismatch_def)
  have l1: "3 \<le> length [0, 0, 5 :: real]" by simp
  have a1: "0 = py_int ([0, 0, 5] ! 0)" and b1: "5 = py_int ([0, 0, 5] ! 2)"
    by (simp_all add: py_int_def)
  have g1: "get_group file_mismatch = Some mismatch_get"
    and f1: "frib_evt file_mismatch = FribEvt mismatch_frib" by (simp_all add: file_mismatch_def)
  have rg1: "field mismatch_get (evt_key 0 ''header'') 2 = Inr 100" by code_simp
  have rf1: "field mismatch_frib (evt_key 0 ''header'') 1 = Inr 0" by code_simp
  have t0: "this_offset mismatch_get mismatch_frib 0 = Inr (100, 100, 0)" by code_simp
  have t1: "this_offset mismatch_get mismatch_frib 1 = Inr (101, 101, 0)" by code_simp
  have t2: "this_offset mismatch_get mismatch_frib 2 = Inr (103, 103, 0)" by code_simp
  have t3: "Mapping.lookup mismatch_get (evt_key 3 ''header'') = None" by code_simp
  have t4: "this_offset mismatch_get mismatch_frib 4 = Inr (500, 500, 0)" by code_simp
  have before: "\<forall>N\<in>set [0..2 - 1]. \<exists>found a b.
      this_offset mismatch_get mismatch_frib N = Inr (found, a, b) \<and>
      drifted py_floats found (Finite 100) = Inr False"
  proof
    fix N :: int assume "N \<in> set [0..2 - 1]"
    then have "N = 0 \<or> N = 1" by auto
    then show "\<exists>found a b. this_offset mismatch_get mismatch_frib N = Inr (found, a, b) \<and>
      drifted py_floats found (Finite 100) = Inr False"
      using t0 t1 d100 d101 by blast
  qed
  have inr: "(2::int) \<in> set [0..5 - 1]" by simp
  have h1: "2 \<in> set [0..5 - 1] \<and>
     (\<forall>N\<in>set [0..2 - 1]. \<exists>found a b.
        this_offset mismatch_get mismatch_frib N = Inr (found, a, b) \<and>
        drifted py_floats found (Finite 100) = Inr False) \<and>
     this_offset mismatch_get mismatch_frib 2 = Inr (103, 103, 0) \<and>
     drifted py_floats 103 (Finite 100) = Inr True"
    using inr before t2 d103 by (intro conjI)
  have c1: "check_timestamps file_mismatch = Inr (Mismatch 2 103 103 (Finite 0) (Finite 100))"
    unfolding check_timestamps_def fl0 [symmetric]
    by (rule first_mismatch_reported [OF m1 l1 a1 b1 g1 f1 rg1 rf1 off,
          THEN conjunct1, THEN mp, OF h1])
  have m2: "meta_data file_sync = Some [0, 0, 3]" by (simp add: file_sync_def)
  have l2: "3 \<le> length [0, 0, 3 :: real]" by simp
  have a2: "0 = py_int ([0, 0, 3] ! 0)" and b2: "3 = py_int ([0, 0, 3] ! 2)"
    by (simp_all add: py_int_def)
  have g2: "get_group file_sync = Some ?G"
    and f2: "frib_evt file_sync = FribEvt ?F" by (simp_all add: file_sync_def)
  have rg2: "field ?G (evt_key 0 ''header'') 2 = Inr 100" by code_simp
  have rf2: "field ?F (evt_key 0 ''header'') 1 = Inr 0" by code_simp
  have s0: "this_offset ?G ?F 0 = Inr (100, 100, 0)" by code_simp
  have s1: "this_offset ?G ?F 1 = Inr (100, 101, 1)" by code_simp
  have s2: "this_offset ?G ?F 2 = Inr (100, 102, 2)" by code_simp
  have h2: "\<forall>N\<in>set [0..3 - 1]. \<exists>found a b.
      this_offset ?G ?F N = Inr (found, a, b) \<and> drifted py_floats found (Finite 100) = Inr False"
  proof
    fix N :: int assume "N \<in> set [0..3 - 1]"
    then have "N = 0 \<or> N = 1 \<or> N = 2" by auto
    then show "\<exists>found a b. this_offset ?G ?F N = Inr (found, a, b) \<and>
      drifted py_floats found (Finite 100) = Inr False"
      using s0 s1 s2 d100 by blast
  qed
  have c2: "check_timestamps file_sync = Inr Match"
    unfolding check_timestamps_def
    by (rule first_mismatch_reported [OF m2 l2 a2 b2 g2 f2 rg2 rf2 off,
          THEN conjunct2, THEN mp, OF h2])
  show ?thesis
    apply (intro conjI)
          apply (rule t2)
         apply (rule d103)
        apply (rule c1)
       apply (rule t3)
      apply (rule t4)
     apply (unfold list_all_iff) [1]
     apply (rule h2)
    apply (rule c2)
    done
qed

section \<open>What a reported match does not say\<close>

text \<open>What a match does say: every scanned index was readable and failed the test of the
  source, so no offset exceeded the reference by more than 1.\<close>

lemma scan_match_bounded:
  "scan ar gg fg offset xs = Inr Match \<Longrightarrow>
   \<forall>N\<in>set xs. \<exists>found a b. this_offset gg fg N = Inr (found, a, b) \<and>
     drifted ar found offset = Inr False"
  by (induction xs) (auto split: sum.splits bool.splits)

text \<open>
  Claim C3 says that a reported match bounds the drift of the offset by 1 in both
  directions. The source compares \<^verbatim>\<open>this_offset - offset > 1\<close> only, so an offset that falls
  is never reported: with the timestamps 100 and 50 against 0 and 0 the reference offset
  is 100, the offset at index 1 is 50, and the check reports a match.
\<close>

theorem check_accepts_negative_drift:
  "check_timestamps file_drift = Inr Match \<and>
   field drift_get (evt_key 0 ''header'') 2 = Inr 100 \<and>
   field drift_frib (evt_key 0 ''header'') 1 = Inr 0 \<and>
   this_offset drift_get drift_frib 1 = Inr (50, 50, 0) \<and>
   \<bar>real_of_int 50 - (100 - 0)\<bar> > 1"
proof -
  have 1: "check_timestamps file_drift = Inr Match" unfolding check_timestamps_def by code_simp
  have 2: "field drift_get (evt_key 0 ''header'') 2 = Inr 100" by code_simp
  have 3: "field drift_frib (evt_key 0 ''header'') 1 = Inr 0" by code_simp
  have 4: "this_offset drift_get drift_frib 1 = Inr (50, 50, 0)" by code_simp
  have 5: "\<bar>real_of_int 50 - (100 - 0)\<bar> > 1" by simp
  from 1 2 3 4 5 show ?thesis by (intro conjI)
qed

end
